theory Spec2Isabelle
  imports Main "HOL-Library.Sublist" "HOL-Library.Word"
begin

section \<open>Go strings, as byte lists\<close>

text \<open>
  A Go \<open>string\<close> is a sequence of bytes; it is modelled as \<open>string\<close> (a list of
  8-bit characters). The functions of package \<open>strings\<close> that the handlers call are
  written out here at byte level.

  \<open>strings.ToLower\<close> is written for the ASCII letters: a byte in \<open>A..Z\<close> moves to
  \<open>a..z\<close>, every other byte stays. All alias and keyword tables of the program are
  ASCII, and so are the OS names a session reports; Go also lower-cases letters outside
  ASCII, which this model leaves as they are.
\<close>

definition ToLower_byte :: "char \<Rightarrow> char" where
  "ToLower_byte c =
     (let n = (of_char c :: nat) in if 65 \<le> n \<and> n \<le> 90 then char_of (n + 32) else c)"

definition ToLower :: "string \<Rightarrow> string" where
  "ToLower s = map ToLower_byte s"

definition HasPrefix :: "string \<Rightarrow> string \<Rightarrow> bool" where
  "HasPrefix s p = prefix p s"

definition TrimPrefix :: "string \<Rightarrow> string \<Rightarrow> string" where
  "TrimPrefix s p = (if HasPrefix s p then drop (length p) s else s)"

definition Contains :: "string \<Rightarrow> string \<Rightarrow> bool" where
  "Contains s sub = sublist sub s"

text \<open>
  \<open>strings.Count(s, "/")\<close> and \<open>strings.Split(s, ":")\<close> are only called with a
  one-byte pattern; they take that byte. \<open>Split\<close> of the empty string is the list
  holding one empty string, as in Go.
\<close>

definition Count :: "string \<Rightarrow> char \<Rightarrow> nat" where
  "Count s c = length (filter (\<lambda>x. x = c) s)"

fun Split :: "string \<Rightarrow> char \<Rightarrow> string list" where
  "Split [] sep = [[]]"
| "Split (c # cs) sep =
     (if c = sep then [] # Split cs sep
      else (case Split cs sep of p # ps \<Rightarrow> (c # p) # ps | [] \<Rightarrow> [[c]]))"

section \<open>Decoded JSON arguments\<close>

text \<open>
  The tool arguments arrive as \<open>map[string]interface{}\<close>. A decoded object is kept as
  an association list read with \<open>map_of\<close> (a Go map holds one value for a key; where a
  list repeats a key, the first entry is the value of the map); the type assertions of
  the source
  (\<open>v.(string)\<close>, \<open>v.([]interface{})\<close>, \<open>v.(map[string]interface{})\<close>)
  become the partial readers below. No number is read by the code
  modelled here; the payload of \<open>JNumber\<close> is a placeholder.
\<close>

datatype json =
    JNull
  | JBool bool
  | JNumber int
  | JString string
  | JArray "json list"
  | JObject "(string \<times> json) list"

type_synonym jmap = "(string \<times> json) list"

definition get_string :: "jmap \<Rightarrow> string \<Rightarrow> string option" where
  "get_string m k = (case map_of m k of Some (JString s) \<Rightarrow> Some s | _ \<Rightarrow> None)"

definition get_list :: "jmap \<Rightarrow> string \<Rightarrow> json list option" where
  "get_list m k = (case map_of m k of Some (JArray xs) \<Rightarrow> Some xs | _ \<Rightarrow> None)"

definition get_map :: "jmap \<Rightarrow> string \<Rightarrow> jmap option" where
  "get_map m k = (case map_of m k of Some (JObject kv) \<Rightarrow> Some kv | _ \<Rightarrow> None)"

section \<open>Platform identifier: aliases, defaults, supported pairs\<close>

text \<open>
  \<open>HandleGenerateImplant\<close> and \<open>HandleSaveImplantProfile\<close> hold the same two
  switches. \<open>standardize_os\<close> and \<open>standardize_arch\<close> are the switches on the
  lower-cased value; \<open>canonicalize_os\<close> and \<open>canonicalize_arch\<close> are what a given
  input string goes through before the defaults are applied.
\<close>

definition standardize_os :: "string \<Rightarrow> string" where
  "standardize_os g =
     (if g = ''mac'' \<or> g = ''macos'' \<or> g = ''osx'' then ''darwin''
      else if g = ''win'' then ''windows''
      else if g = ''lin'' then ''linux''
      else g)"

definition standardize_arch :: "string \<Rightarrow> string" where
  "standardize_arch a =
     (if a = ''x64'' \<or> a = ''x86_64'' \<or> a = ''amd64'' \<or> a = ''64'' \<or> a = ''64bit''
        then ''amd64''
      else if a = ''x86'' \<or> a = ''i386'' \<or> a = ''386'' \<or> a = ''32'' \<or> a = ''32bit''
        then ''386''
      else if a = ''arm64'' \<or> a = ''aarch64'' then ''arm64''
      else a)"



text \<open>
  The GOOS and GOARCH fields as both handlers compute them from the configuration map:
  key \<open>OS\<close> is read before key \<open>os\<close>, a value that is not a string counts as
  absent, and an empty result takes the default.
\<close>

definition config_goos :: "jmap \<Rightarrow> string" where
  "config_goos cfg =
     (let g0 = (case get_string cfg ''OS'' of
                  Some s \<Rightarrow> ToLower s
                | None \<Rightarrow> (case get_string cfg ''os'' of
                             Some s \<Rightarrow> ToLower s
                           | None \<Rightarrow> ''''));
          g1 = standardize_os g0
      in if g1 = '''' then ''windows'' else g1)"

definition config_goarch :: "jmap \<Rightarrow> string" where
  "config_goarch cfg =
     (let a0 = (case get_string cfg ''arch'' of
                  Some s \<Rightarrow> standardize_arch (ToLower s)
                | None \<Rightarrow> '''')
      in if a0 = '''' then ''amd64'' else a0)"

definition platform_string :: "string \<Rightarrow> string \<Rightarrow> string" where
  "platform_string goos goarch = goos @ ''/'' @ goarch"

definition supportedPlatforms :: "string list" where
  "supportedPlatforms =
     [''windows/amd64'', ''windows/386'', ''linux/amd64'', ''linux/386'',
      ''darwin/amd64'', ''darwin/arm64'']"

definition platform_supported :: "string \<Rightarrow> bool" where
  "platform_supported p = (p \<in> set supportedPlatforms)"

section \<open>Errors and observable events\<close>

text \<open>
  A Go \<open>error\<close> built by \<open>fmt.Errorf\<close> is its text. One message formats a decoded
  JSON list with \<open>%+v\<close>; that error keeps the list instead of a rendering.
  \<open>NewInvalidArgsError\<close> is the helper of the tools package.
\<close>

datatype error =
    Err string
  | InvalidMtlsc2Err "json list"

definition NewInvalidArgsError :: "string \<Rightarrow> error" where
  "NewInvalidArgsError message = Err (''invalid arguments: '' @ message)"

text \<open>\<open>%d\<close> of a slice index: the decimal digits of a natural number.\<close>

fun Itoa :: "nat \<Rightarrow> string" where
  "Itoa n = (if n < 10 then [char_of (48 + n)] else Itoa (n div 10) @ [char_of (48 + n mod 10)])"

datatype OutputFormat = SHARED_LIB | SHELLCODE | EXECUTABLE | SERVICE

record ImplantC2 =
  Priority :: "32 word"
  URL :: string

text \<open>
  \<open>clientpb.ImplantConfig\<close>, with the fields the platform, format and endpoint code
  writes. The behavioural flags (\<open>isBeacon\<close>, \<open>beaconInterval\<close>, \<open>beaconJitter\<close>,
  \<open>debug\<close>, \<open>evasion\<close>, \<open>obfuscateSymbols\<close>) are copied after every check modelled
  here and take part in none of them; the record leaves them out.
\<close>

record ImplantConfig =
  GOOS :: string
  GOARCH :: string
  Format :: OutputFormat
  C2 :: "ImplantC2 list"
  Name :: string

text \<open>
  What a handler does besides returning: the \<open>WARNING\<close> lines it prints (each kept
  without its final newline; the line about an \<open>mtlsc2\<close> entry that is not a string
  keeps the index and the entry it formats) and the requests it sends to the Sliver
  server, in order. The other lines written to standard output are not modelled.
\<close>

datatype event =
    Warning string
  | WarningInvalidMtlsc2 nat json
  | GenerateRPC ImplantConfig
  | SaveImplantProfileRPC string ImplantConfig

section \<open>Output format\<close>

definition is_shared_lib_format :: "string \<Rightarrow> bool" where
  "is_shared_lib_format format \<longleftrightarrow>
     format = ''shared-lib'' \<or> format = ''sharedlib'' \<or> format = ''dll'' \<or> format = ''so''
     \<or> format = ''dylib''"

text \<open>Lines 164-189 of \<open>HandleGenerateImplant\<close>: the format is set, then warnings only.\<close>

definition generate_format :: "jmap \<Rightarrow> event list \<times> OutputFormat" where
  "generate_format cfg =
     (case get_string cfg ''format'' of
        None \<Rightarrow> ([], EXECUTABLE)
      | Some f \<Rightarrow>
          (let format = ToLower f in
           if is_shared_lib_format format then
             ([Warning ''WARNING: Shared library format requested, but defaulting to executable for compatibility''], EXECUTABLE)
           else if format = ''shellcode'' then
             ([Warning ''WARNING: Shellcode format requested, but defaulting to executable for compatibility''], EXECUTABLE)
           else if format = ''service'' then
             ([Warning ''WARNING: Service format requested, but defaulting to executable for compatibility''], EXECUTABLE)
           else ([], EXECUTABLE)))"

text \<open>Lines 509-525 of \<open>HandleSaveImplantProfile\<close>.\<close>

definition profile_format :: "jmap \<Rightarrow> event list \<times> OutputFormat" where
  "profile_format cfg =
     (case get_string cfg ''format'' of
        None \<Rightarrow> ([], EXECUTABLE)
      | Some f \<Rightarrow>
          (let format = ToLower f in
           if is_shared_lib_format format then
             ([Warning ''WARNING: Shared library format requested in profile, but defaulting to executable''], EXECUTABLE)
           else if format = ''shellcode'' then
             ([Warning ''WARNING: Shellcode format requested in profile, but defaulting to executable''], EXECUTABLE)
           else if format = ''service'' then
             ([Warning ''WARNING: Service format requested in profile, but defaulting to executable''], EXECUTABLE)
           else ([], EXECUTABLE)))"

section \<open>C2 endpoint resolution\<close>

text \<open>
  The loops over a decoded list keep the index of the element in the list
  (\<open>uint32(i)\<close>, so the index modulo \<open>2^32\<close>); an element of the wrong type is
  skipped and does not shift the indices of the later ones.
\<close>

fun c2_from_objects :: "nat \<Rightarrow> json list \<Rightarrow> ImplantC2 list" where
  "c2_from_objects i [] = []"
| "c2_from_objects i (JObject c2Map # rest) =
     \<lparr>Priority = of_nat i,
      URL = (case get_string c2Map ''url'' of Some url \<Rightarrow> url | None \<Rightarrow> '''')\<rparr>
     # c2_from_objects (Suc i) rest"
| "c2_from_objects i (_ # rest) = c2_from_objects (Suc i) rest"

text \<open>
  The \<open>mtlsc2\<close>, \<open>httpc2\<close> and \<open>httpsc2\<close> loops differ in the scheme only: a string
  that does not start with the scheme gets it in front.
\<close>

fun c2_from_strings :: "string \<Rightarrow> nat \<Rightarrow> json list \<Rightarrow> ImplantC2 list" where
  "c2_from_strings scheme i [] = []"
| "c2_from_strings scheme i (JString serverStr # rest) =
     \<lparr>Priority = of_nat i,
      URL = (if \<not> HasPrefix serverStr scheme then scheme @ serverStr else serverStr)\<rparr>
     # c2_from_strings scheme (Suc i) rest"
| "c2_from_strings scheme i (_ # rest) = c2_from_strings scheme (Suc i) rest"

fun mtlsc2_warnings :: "nat \<Rightarrow> json list \<Rightarrow> event list" where
  "mtlsc2_warnings i [] = []"
| "mtlsc2_warnings i (JString serverStr # rest) = mtlsc2_warnings (Suc i) rest"
| "mtlsc2_warnings i (server # rest) = WarningInvalidMtlsc2 i server # mtlsc2_warnings (Suc i) rest"

definition nonempty_list :: "jmap \<Rightarrow> string \<Rightarrow> json list option" where
  "nonempty_list m k =
     (case get_list m k of Some xs \<Rightarrow> (if xs \<noteq> [] then Some xs else None) | None \<Rightarrow> None)"

text \<open>
  Lines 191-260: the \<open>if / else if\<close> chain. The result is the events, and either the
  error of the \<open>mtlsc2\<close> branch or the pair (\<open>foundC2Config\<close>, endpoints).
\<close>

definition resolve_c2 :: "jmap \<Rightarrow> event list \<times> (error + bool \<times> ImplantC2 list)" where
  "resolve_c2 cfg =
     (case nonempty_list cfg ''c2'' of
        Some c2Configs \<Rightarrow> ([], Inr (True, c2_from_objects 0 c2Configs))
      | None \<Rightarrow>
     (case get_list cfg ''mtlsc2'' of
        Some mtlsC2 \<Rightarrow>
          (let c2 = c2_from_strings ''mtls://'' 0 mtlsC2 in
           if c2 = [] \<and> mtlsC2 \<noteq> []
           then (mtlsc2_warnings 0 mtlsC2, Inl (InvalidMtlsc2Err mtlsC2))
           else (mtlsc2_warnings 0 mtlsC2, Inr (True, c2)))
      | None \<Rightarrow>
     (case nonempty_list cfg ''httpc2'' of
        Some httpC2 \<Rightarrow> ([], Inr (True, c2_from_strings ''http://'' 0 httpC2))
      | None \<Rightarrow>
     (case nonempty_list cfg ''httpsc2'' of
        Some httpsC2 \<Rightarrow> ([], Inr (True, c2_from_strings ''https://'' 0 httpsC2))
      | None \<Rightarrow>
     (case get_string cfg ''c2'' of
        Some c2URL \<Rightarrow>
          (if c2URL \<noteq> '''' then ([], Inr (True, [\<lparr>Priority = 0, URL = c2URL\<rparr>]))
           else ([], Inr (False, [])))
      | None \<Rightarrow> ([], Inr (False, [])))))))"

text \<open>Lines 266-286: the first endpoint that fails a check ends the request.\<close>

fun validate_c2 :: "nat \<Rightarrow> ImplantC2 list \<Rightarrow> error option" where
  "validate_c2 i [] = None"
| "validate_c2 i (c2 # rest) =
     (if URL c2 = '''' then
        Some (NewInvalidArgsError ''empty C2 URL detected - please provide valid C2 URLs'')
      else if HasPrefix (URL c2) ''mtls://'' then
        (let parts = Split (TrimPrefix (URL c2) ''mtls://'') (CHR '':'') in
         if length parts \<noteq> 2 \<and> (length parts \<noteq> 1 \<or> hd parts = '''') then
           Some (NewInvalidArgsError (''invalid MTLS URL format at index '' @ Itoa i @ '': '' @ URL c2
                   @ '' - format should be mtls://host:port or mtls://host''))
         else validate_c2 (Suc i) rest)
      else if HasPrefix (URL c2) ''http://'' \<or> HasPrefix (URL c2) ''https://'' then
        (if Count (URL c2) (CHR ''/'') < 3 then
           Some (NewInvalidArgsError (''invalid HTTP(S) URL format at index '' @ Itoa i @ '': '' @ URL c2
                   @ '' - format should include host, e.g., http://domain.com''))
         else validate_c2 (Suc i) rest)
      else
        Some (NewInvalidArgsError (''invalid URL protocol at index '' @ Itoa i @ '': '' @ URL c2
                @ '' - supported protocols are mtls://, http://, and https://'')))"

section \<open>The client's \<open>Generate\<close>\<close>

text \<open>
  \<open>SliverClient.Generate\<close> (client.go) normalises the platform once more, sends the
  configuration to the server and words the server's error. The server is a function
  from the request to its answer: the error text, or the reply. Of the reply, the
  handler reads whether a file and its data came back.
\<close>

datatype CommonFile = CommonFile (FileName: string) (Data: "string option")

record GenerateReply =
  File :: "CommonFile option"

definition Format_String :: "OutputFormat \<Rightarrow> string" where
  "Format_String f =
     (case f of SHARED_LIB \<Rightarrow> ''SHARED_LIB'' | SHELLCODE \<Rightarrow> ''SHELLCODE''
      | EXECUTABLE \<Rightarrow> ''EXECUTABLE'' | SERVICE \<Rightarrow> ''SERVICE'')"

definition client_goos :: "string \<Rightarrow> string" where
  "client_goos g = standardize_os (ToLower (if g = '''' then ''windows'' else g))"

definition client_goarch :: "string \<Rightarrow> string" where
  "client_goarch a =
     (let a' = ToLower (if a = '''' then ''amd64'' else a) in
      if a' = ''x64'' \<or> a' = ''x86_64'' \<or> HasPrefix a' ''64'' then ''amd64''
      else if a' = ''x86'' \<or> a' = ''i386'' \<or> HasPrefix a' ''32'' then ''386''
      else a')"

text \<open>Lines 267-295 of client.go: the text of the error \<open>Generate\<close> returns.\<close>

definition Generate_error :: "string \<Rightarrow> string \<Rightarrow> OutputFormat \<Rightarrow> string" where
  "Generate_error errorMsg platform format =
     (if Contains errorMsg ''CC'' \<or> Contains errorMsg ''gcc'' \<or> Contains errorMsg ''mingw'' then
        ''failed to generate implant: cross-compiler error - '' @ errorMsg
      else if Contains errorMsg ''go build'' \<or> Contains errorMsg ''exit status'' then
        ''failed to generate implant: build process error - '' @ errorMsg
      else if Contains errorMsg ''connect'' \<or> Contains errorMsg ''network''
              \<or> Contains errorMsg ''connection'' then
        ''failed to generate implant: network error - '' @ errorMsg
      else
        ''failed to generate implant: '' @ errorMsg @ '' (platform: '' @ platform
          @ '', format: '' @ Format_String format @ '')'')"

definition Generate ::
  "(ImplantConfig \<Rightarrow> string + GenerateReply) \<Rightarrow> ImplantConfig \<Rightarrow> string
     \<Rightarrow> event list \<times> (string + GenerateReply)" where
  "Generate rpc config name =
     (let goos = client_goos (GOOS config);
          goarch = client_goarch (GOARCH config);
          platform = platform_string goos goarch;
          config' = config\<lparr>GOOS := goos, GOARCH := goarch,
                            Name := (if name \<noteq> '''' then name else Name config)\<rparr>
      in ([GenerateRPC config'],
          (case rpc config' of
             Inl errorMsg \<Rightarrow> Inl (Generate_error errorMsg platform (Format config'))
           | Inr generate \<Rightarrow> Inr generate)))"

section \<open>\<open>HandleGenerateImplant\<close>\<close>

definition unsupported_platform_error :: "string \<Rightarrow> error" where
  "unsupported_platform_error platform =
     NewInvalidArgsError (''unsupported platform: '' @ platform
       @ '' - supported platforms are: windows/amd64, windows/386, linux/amd64, linux/386, darwin/amd64, darwin/arm64'')"

definition no_c2_error :: error where
  "no_c2_error =
     NewInvalidArgsError ''no C2 configuration found - please specify at least one C2 server using mtlsc2, httpc2, httpsc2, or c2 fields''"

text \<open>
  Lines 102-286: from the configuration map to the validated \<open>implantConfig\<close>, or the
  first error. Nothing is sent to the server here.
\<close>

definition generate_config :: "jmap \<Rightarrow> event list \<times> (error + ImplantConfig)" where
  "generate_config configMap =
     (let goos = config_goos configMap;
          goarch = config_goarch configMap;
          platform = platform_string goos goarch
      in if \<not> platform_supported platform then ([], Inl (unsupported_platform_error platform))
         else
           (case generate_format configMap of (w1, format) \<Rightarrow>
            (case resolve_c2 configMap of
               (w2, Inl e) \<Rightarrow> (w1 @ w2, Inl e)
             | (w2, Inr (foundC2Config, c2)) \<Rightarrow>
                 (if \<not> foundC2Config \<or> c2 = [] then (w1 @ w2, Inl no_c2_error)
                  else (case validate_c2 0 c2 of
                          Some e \<Rightarrow> (w1 @ w2, Inl e)
                        | None \<Rightarrow>
                            (w1 @ w2,
                             Inr \<lparr>GOOS = goos, GOARCH = goarch, Format = format, C2 = c2,
                                  Name = ''''\<rparr>))))))"

text \<open>Lines 330-353: the handler's wording of an error of \<open>client.Generate\<close>.\<close>

definition cross_compiler_error :: error where
  "cross_compiler_error =
     Err ''cross-compiler error: required cross-compiler not found or failed. For Windows targets, ensure mingw-w64 is installed. For Linux targets, ensure gcc is installed''"

definition unsupported_build_platform_error :: "string \<Rightarrow> error" where
  "unsupported_build_platform_error platform =
     Err (''unsupported platform: '' @ platform
       @ '' - please choose a supported OS/architecture combination'')"

definition network_error :: error where
  "network_error =
     Err ''network error while building implant: server may be unavailable or connection disrupted''"

definition build_failed_error :: error where
  "build_failed_error =
     Err ''build failed: compilation error during implant generation - check server logs for details''"

definition generic_generate_error :: "string \<Rightarrow> error" where
  "generic_generate_error errorMsg =
     Err (''failed to generate implant: '' @ errorMsg @ '' - check server logs for more details'')"

definition generate_failure :: "string \<Rightarrow> string \<Rightarrow> error" where
  "generate_failure platform errorMsg =
     (if Contains errorMsg ''exit status 1'' then
        (if Contains errorMsg ''CC'' \<or> Contains errorMsg ''gcc'' then cross_compiler_error
         else if Contains errorMsg ''unknown architecture'' \<or> Contains errorMsg ''unknown OS''
           then unsupported_build_platform_error platform
         else if Contains errorMsg ''connection'' \<or> Contains errorMsg ''network''
           then network_error
         else build_failed_error)
      else generic_generate_error errorMsg)"

text \<open>
  The environment of the handler: whether \<open>os.Stat\<close> reports a path as not existing,
  and the server behind \<open>client.Generate\<close>.
\<close>

record env =
  stat_not_exist :: "string \<Rightarrow> bool"
  rpc_Generate :: "ImplantConfig \<Rightarrow> string + GenerateReply"

definition implant_name :: "jmap \<Rightarrow> string" where
  "implant_name arguments =
     (case get_string arguments ''name'' of
        Some name \<Rightarrow> (if name \<noteq> '''' then name else ''generated-implant'')
      | None \<Rightarrow> ''generated-implant'')"

text \<open>
  The handler up to the reply of the server (lines 93-357). Saving the file and wording
  the answer (lines 359-415) work on that reply and are not modelled; the success value
  here is the reply.
\<close>

definition HandleGenerateImplant :: "env \<Rightarrow> jmap \<Rightarrow> event list \<times> (error + GenerateReply)" where
  "HandleGenerateImplant e arguments =
     (case get_map arguments ''config'' of
        None \<Rightarrow>
          ([], Inl (NewInvalidArgsError
                     ''config must be an object with OS, architecture, and C2 configuration''))
      | Some configMap \<Rightarrow>
          (case generate_config configMap of
             (w, Inl err) \<Rightarrow> (w, Inl err)
           | (w, Inr implantConfig) \<Rightarrow>
               (if GOOS implantConfig = ''windows'' \<and> GOARCH implantConfig = ''amd64''
                   \<and> stat_not_exist e ''/usr/bin/x86_64-w64-mingw32-gcc'' then
                  (w, Inl (Err ''missing required compiler for Windows/amd64: /usr/bin/x86_64-w64-mingw32-gcc - please install mingw-w64 package''))
                else if GOOS implantConfig = ''windows'' \<and> GOARCH implantConfig = ''386''
                   \<and> stat_not_exist e ''/usr/bin/i686-w64-mingw32-gcc'' then
                  (w, Inl (Err ''missing required compiler for Windows/386: /usr/bin/i686-w64-mingw32-gcc - please install mingw-w64 package''))
                else
                  (case Generate (rpc_Generate e) implantConfig (implant_name arguments) of
                     (sent, Inl errorMsg) \<Rightarrow>
                       (w @ sent,
                        Inl (generate_failure
                               (platform_string (GOOS implantConfig) (GOARCH implantConfig))
                               errorMsg))
                   | (sent, Inr generate) \<Rightarrow>
                       (case File generate of
                          None \<Rightarrow> (w @ sent, Inl (Err ''failed to generate implant: no file data returned from server - build may have failed''))
                        | Some f \<Rightarrow>
                            (if Data f = None then
                               (w @ sent, Inl (Err ''failed to generate implant: no file data returned from server - build may have failed''))
                             else (w @ sent, Inr generate)))))))"

section \<open>\<open>HandleSaveImplantProfile\<close>\<close>

record ImplantProfile =
  ProfileName :: string
  Config :: ImplantConfig

text \<open>Lines 531-550: the profile handler reads key \<open>c2\<close> only, and checks nothing.\<close>

definition profile_c2 :: "jmap \<Rightarrow> ImplantC2 list" where
  "profile_c2 configMap =
     (case get_list configMap ''c2'' of
        Some c2Configs \<Rightarrow> c2_from_objects 0 c2Configs
      | None \<Rightarrow>
          (case get_string configMap ''c2'' of
             Some c2URL \<Rightarrow> [\<lparr>Priority = 0, URL = c2URL\<rparr>]
           | None \<Rightarrow> []))"

text \<open>
  \<open>SliverClient.SaveImplantProfile\<close> passes the profile to the server and words its
  error; the handler returns that error as it is.
\<close>

definition SaveImplantProfile ::
  "(ImplantProfile \<Rightarrow> string + ImplantProfile) \<Rightarrow> ImplantProfile
     \<Rightarrow> event list \<times> (error + ImplantProfile)" where
  "SaveImplantProfile rpc profile =
     ([SaveImplantProfileRPC (ProfileName profile) (Config profile)],
      (case rpc profile of
         Inl err \<Rightarrow> Inl (Err (''failed to save implant profile: '' @ err))
       | Inr savedProfile \<Rightarrow> Inr savedProfile))"

definition HandleSaveImplantProfile ::
  "(ImplantProfile \<Rightarrow> string + ImplantProfile) \<Rightarrow> jmap
     \<Rightarrow> event list \<times> (error + ImplantProfile)" where
  "HandleSaveImplantProfile rpc arguments =
     (case get_string arguments ''name'' of
        None \<Rightarrow> ([], Inl (NewInvalidArgsError ''name must be a non-empty string''))
      | Some name \<Rightarrow>
          (if name = '''' then ([], Inl (NewInvalidArgsError ''name must be a non-empty string''))
           else
             (case get_map arguments ''config'' of
                None \<Rightarrow> ([], Inl (NewInvalidArgsError ''config must be an object''))
              | Some configMap \<Rightarrow>
                  (case profile_format configMap of (w, format) \<Rightarrow>
                   (case SaveImplantProfile rpc
                           \<lparr>ProfileName = name,
                            Config = \<lparr>GOOS = config_goos configMap,
                                      GOARCH = config_goarch configMap,
                                      Format = format, C2 = profile_c2 configMap,
                                      Name = ''''\<rparr>\<rparr> of
                      (sent, r) \<Rightarrow> (w @ sent, r))))))"

section \<open>Remote execution: the client's \<open>Execute\<close>\<close>

text \<open>
  The Sliver server is reached through two calls, \<open>GetSessions\<close> and \<open>Execute\<close>. Each
  takes the state of the world outside the program and returns its answer (the error
  text, or the reply) with the next state, so a retried call may be answered differently.
  \<open>SliverClient.Execute\<close> returns, next to its result, the requests it sent, in order.
\<close>

record Session =
  ID :: string
  OS :: string

record ExecuteReq =
  SessionID :: string
  Path :: string
  Args :: "string list"
  Output :: bool

text \<open>
  \<open>sliverpb.Execute\<close>: \<open>ResponseErr\<close> is \<open>None\<close> when \<open>Response\<close> is nil, and the
  \<open>Err\<close> field of the response otherwise.
\<close>

record ExecuteReply =
  ResponseErr :: "string option"
  Stdout :: string
  Stderr :: string

record 'w RPCClient =
  GetSessions :: "'w \<Rightarrow> (string + Session list) \<times> 'w"
  ExecuteRPC :: "ExecuteReq \<Rightarrow> 'w \<Rightarrow> (string + ExecuteReply) \<times> 'w"

definition GetSession :: "'w RPCClient \<Rightarrow> string \<Rightarrow> 'w \<Rightarrow> (string + Session) \<times> 'w" where
  "GetSession c sessionID w =
     (case GetSessions c w of
        (Inl err, w') \<Rightarrow> (Inl (''failed to get sessions: '' @ err), w')
      | (Inr sessions, w') \<Rightarrow>
          (case find (\<lambda>session. ID session = sessionID) sessions of
             Some session \<Rightarrow> (Inr session, w')
           | None \<Rightarrow> (Inl (''session with ID '' @ sessionID @ '' not found''), w')))"

definition cmd_request :: "string \<Rightarrow> string \<Rightarrow> ExecuteReq" where
  "cmd_request sessionID command =
     \<lparr>SessionID = sessionID, Path = ''cmd.exe'',
      Args = [''/D'', ''/u'', ''/V:OFF'', ''/C'', command], Output = True\<rparr>"

definition powershell_request :: "string \<Rightarrow> string \<Rightarrow> ExecuteReq" where
  "powershell_request sessionID command =
     \<lparr>SessionID = sessionID, Path = ''powershell.exe'',
      Args = [''-NoProfile'', ''-NonInteractive'', ''-OutputFormat'', ''Text'', ''-Command'',
              ''$OutputEncoding = [System.Text.Encoding]::UTF8; '' @ command
                @ ''; exit $LASTEXITCODE''],
      Output = True\<rparr>"

definition bash_request :: "string \<Rightarrow> string \<Rightarrow> ExecuteReq" where
  "bash_request sessionID command =
     \<lparr>SessionID = sessionID, Path = ''/bin/bash'', Args = [''-c'', command], Output = True\<rparr>"

definition sh_request :: "string \<Rightarrow> string \<Rightarrow> ExecuteReq" where
  "sh_request sessionID command =
     \<lparr>SessionID = sessionID, Path = ''/bin/sh'', Args = [''-c'', command], Output = True\<rparr>"

text \<open>
  Both branches of \<open>Execute\<close> have one shape: the first request, and only if it fails
  the second; if that fails too, the error names both and carries the second error.
\<close>

definition attempt_twice ::
  "'w RPCClient \<Rightarrow> ExecuteReq \<Rightarrow> ExecuteReq \<Rightarrow> string \<Rightarrow> 'w
     \<Rightarrow> ((string + ExecuteReply) \<times> ExecuteReq list) \<times> 'w" where
  "attempt_twice c first second both w =
     (case ExecuteRPC c first w of
        (Inr execute, w1) \<Rightarrow> ((Inr execute, [first]), w1)
      | (Inl err1, w1) \<Rightarrow>
          (case ExecuteRPC c second w1 of
             (Inr execute, w2) \<Rightarrow> ((Inr execute, [first, second]), w2)
           | (Inl err, w2) \<Rightarrow> ((Inl (both @ err), [first, second]), w2)))"

definition Execute ::
  "'w RPCClient \<Rightarrow> string \<Rightarrow> string \<Rightarrow> 'w
     \<Rightarrow> ((string + ExecuteReply) \<times> ExecuteReq list) \<times> 'w" where
  "Execute c sessionID command w =
     (case GetSession c sessionID w of
        (Inl err, w0) \<Rightarrow> ((Inl (''failed to get session info: '' @ err), []), w0)
      | (Inr session, w0) \<Rightarrow>
          (if ToLower (OS session) = ''windows'' then
             attempt_twice c (cmd_request sessionID command)
               (powershell_request sessionID command)
               ''failed to execute command with both cmd.exe and powershell.exe: '' w0
           else
             attempt_twice c (bash_request sessionID command) (sh_request sessionID command)
               ''failed to execute command with both bash and sh: '' w0))"

section \<open>Remote execution: \<open>HandleExecute\<close>\<close>

text \<open>
  \<open>strings.ReplaceAll\<close>: the matches of \<open>old\<close> are taken from the left and do not
  overlap. The handler always passes a non-empty \<open>old\<close>; for the empty one, where Go
  inserts \<open>new\<close> around every UTF-8 sequence, the model steps by byte.
\<close>

function ReplaceAll :: "string \<Rightarrow> string \<Rightarrow> string \<Rightarrow> string" where
  "ReplaceAll s old new =
     (if old = [] then new @ concat (map (\<lambda>c. c # new) s)
      else if s = [] then []
      else if prefix old s then new @ ReplaceAll (drop (length old) s) old new
      else hd s # ReplaceAll (tl s) old new)"
  by pat_completeness auto
termination
  by (relation "measure (\<lambda>(s, old, new). length s)") auto

declare ReplaceAll.simps [simp del]

text \<open>
  \<open>strings.TrimSpace\<close> removes the leading and the trailing white space as
  \<open>unicode.IsSpace\<close> defines it: the six ASCII space bytes, and the code points
  U+0085, U+00A0, U+1680, U+2000 to U+200A, U+2028, U+2029, U+202F, U+205F and U+3000,
  which a Go string holds in their UTF-8 encodings. \<open>leading_space\<close> and
  \<open>trailing_space\<close> give the width in bytes of the white-space character at that end
  of the string, 0 when there is none.
\<close>

definition asciiSpace :: "char \<Rightarrow> bool" where
  "asciiSpace c \<longleftrightarrow> c \<in> {CHR 0x09, CHR 0x0A, CHR 0x0B, CHR 0x0C, CHR 0x0D, CHR 0x20}"

definition space_encodings :: "string list" where
  "space_encodings =
     [[CHR 0xC2, CHR 0x85], [CHR 0xC2, CHR 0xA0], [CHR 0xE1, CHR 0x9A, CHR 0x80],
      [CHR 0xE2, CHR 0x80, CHR 0x80], [CHR 0xE2, CHR 0x80, CHR 0x81],
      [CHR 0xE2, CHR 0x80, CHR 0x82], [CHR 0xE2, CHR 0x80, CHR 0x83],
      [CHR 0xE2, CHR 0x80, CHR 0x84], [CHR 0xE2, CHR 0x80, CHR 0x85],
      [CHR 0xE2, CHR 0x80, CHR 0x86], [CHR 0xE2, CHR 0x80, CHR 0x87],
      [CHR 0xE2, CHR 0x80, CHR 0x88], [CHR 0xE2, CHR 0x80, CHR 0x89],
      [CHR 0xE2, CHR 0x80, CHR 0x8A], [CHR 0xE2, CHR 0x80, CHR 0xA8],
      [CHR 0xE2, CHR 0x80, CHR 0xA9], [CHR 0xE2, CHR 0x80, CHR 0xAF],
      [CHR 0xE2, CHR 0x81, CHR 0x9F], [CHR 0xE3, CHR 0x80, CHR 0x80]]"

definition leading_space :: "string \<Rightarrow> nat" where
  "leading_space s =
     (case s of
        [] \<Rightarrow> 0
      | c # _ \<Rightarrow>
          (if asciiSpace c then 1
           else (case find (\<lambda>e. prefix e s) space_encodings of
                   Some e \<Rightarrow> length e
                 | None \<Rightarrow> 0)))"

definition trailing_space :: "string \<Rightarrow> nat" where
  "trailing_space s =
     (if s = [] then 0
      else if asciiSpace (last s) then 1
      else (case find (\<lambda>e. suffix e s) space_encodings of
              Some e \<Rightarrow> length e
            | None \<Rightarrow> 0))"

function TrimLeft :: "string \<Rightarrow> string" where
  "TrimLeft s = (if leading_space s = 0 then s else TrimLeft (drop (leading_space s) s))"
  by pat_completeness auto
termination
  by (relation "measure length") (auto simp: leading_space_def split: list.splits)

function TrimRight :: "string \<Rightarrow> string" where
  "TrimRight s =
     (if trailing_space s = 0 then s else TrimRight (take (length s - trailing_space s) s))"
  by pat_completeness auto
termination
  by (relation "measure length") (auto simp: trailing_space_def split: if_splits)

declare TrimLeft.simps [simp del] TrimRight.simps [simp del]

definition TrimSpace :: "string \<Rightarrow> string" where
  "TrimSpace s = TrimRight (TrimLeft s)"

text \<open>
  Lines 1053-1069 of \<open>HandleExecute\<close>: what becomes of the captured output of a
  Windows session.
\<close>

definition windows_outputStr :: "string \<Rightarrow> string" where
  "windows_outputStr output =
     TrimSpace
       (ReplaceAll
          (ReplaceAll
             (ReplaceAll (ReplaceAll output [CHR 0x00] []) [CHR 0x0D, CHR 0x0A] ''##CRLF##'')
             [CHR 0x0D] [CHR 0x0A])
          ''##CRLF##'' [CHR 0x0A])"



text \<open>
  The steps of the normalisation as the specification words them, each written directly
  on the bytes: dropping the NUL bytes, putting the marker in place of every CR LF pair
  (found from the left), and turning every CR into LF. They are compared below with the
  \<open>strings.ReplaceAll\<close> calls of the handler.
\<close>

definition strip_nul :: "string \<Rightarrow> string" where
  "strip_nul s = filter (\<lambda>c. c \<noteq> CHR 0x00) s"

fun mark_crlf :: "string \<Rightarrow> string" where
  "mark_crlf (c # d # rest) =
     (if c = CHR 0x0D \<and> d = CHR 0x0A then ''##CRLF##'' @ mark_crlf rest
      else c # mark_crlf (d # rest))"
| "mark_crlf s = s"

definition cr_to_lf :: "string \<Rightarrow> string" where
  "cr_to_lf s = map (\<lambda>c. if c = CHR 0x0D then CHR 0x0A else c) s"


text \<open>Lines 1035-1076: the text of the answer, from the reply of a successful call.\<close>

definition outputText :: "bool \<Rightarrow> ExecuteReply \<Rightarrow> string" where
  "outputText isWindows execute =
     (let output = (if Stdout execute = [] then Stderr execute else Stdout execute) in
      if output = [] then
        (if isWindows then
           ''Command executed successfully on Windows (no output). Note that some Windows commands may not produce output when run through cmd.exe or PowerShell.''
         else ''Command executed successfully (no output)'')
      else
        (if isWindows then
           ''Output from Windows command:'' @ [CHR 0x0A] @ windows_outputStr output
         else ''Output:'' @ [CHR 0x0A] @ output))"

definition responseText :: "bool \<Rightarrow> ExecuteReply \<Rightarrow> string" where
  "responseText isWindows execute =
     (case ResponseErr execute of
        Some err \<Rightarrow>
          (if err \<noteq> '''' then ''Failed to execute command: '' @ err
           else outputText isWindows execute)
      | None \<Rightarrow> outputText isWindows execute)"

text \<open>
  The handler looks the session up itself for \<open>isWindows\<close>, then calls
  \<open>client.Execute\<close>, which looks it up again. An error of \<open>client.Execute\<close> is
  returned as it is.
\<close>

definition HandleExecute ::
  "'w RPCClient \<Rightarrow> jmap \<Rightarrow> 'w \<Rightarrow> ((error + string) \<times> ExecuteReq list) \<times> 'w" where
  "HandleExecute c arguments w =
     (case get_string arguments ''sessionID'' of
        None \<Rightarrow> ((Inl (NewInvalidArgsError ''sessionID must be a string''), []), w)
      | Some sessionID \<Rightarrow>
     (case get_string arguments ''command'' of
        None \<Rightarrow> ((Inl (NewInvalidArgsError ''command must be a string''), []), w)
      | Some command \<Rightarrow>
     (case GetSession c sessionID w of
        (Inl err, w0) \<Rightarrow> ((Inl (Err (''failed to get session info: '' @ err)), []), w0)
      | (Inr session, w0) \<Rightarrow>
          (let isWindows = (OS session \<noteq> '''' \<and> ToLower (OS session) = ''windows'') in
           case Execute c sessionID command w0 of
             ((Inl err, sent), w1) \<Rightarrow> ((Inl (Err err), sent), w1)
           | ((Inr execute, sent), w1) \<Rightarrow>
               ((Inr (responseText isWindows execute), sent), w1)))))"

section \<open>Properties of the alias tables\<close>

lemmas char_eval = char_of_def bit_Suc_0_iff










section \<open>Evaluation and reading lemmas\<close>

lemmas json_defs = get_string_def get_list_def get_map_def nonempty_list_def

lemmas string_defs = ToLower_def ToLower_byte_def char_eval HasPrefix_def TrimPrefix_def
  Count_def Contains_def

lemmas platform_defs = config_goos_def config_goarch_def standardize_os_def
  standardize_arch_def platform_string_def platform_supported_def supportedPlatforms_def

lemmas generate_defs = HandleGenerateImplant_def generate_config_def generate_format_def
  is_shared_lib_format_def resolve_c2_def implant_name_def Generate_def client_goos_def
  client_goarch_def NewInvalidArgsError_def unsupported_platform_error_def no_c2_error_def

lemmas profile_defs = HandleSaveImplantProfile_def SaveImplantProfile_def profile_format_def
  is_shared_lib_format_def profile_c2_def NewInvalidArgsError_def

lemma Itoa_0: "Itoa 0 = ''0''"
  by (simp add: char_eval)

declare Itoa.simps [simp del]

lemma get_string_other [simp]: "k \<noteq> k' \<Longrightarrow> get_string ((k', v) # m) k = get_string m k"
  by (simp add: get_string_def)

lemma get_list_other [simp]: "k \<noteq> k' \<Longrightarrow> get_list ((k', v) # m) k = get_list m k"
  by (simp add: get_list_def)

lemma nonempty_list_other:
  "k \<noteq> k' \<Longrightarrow> nonempty_list ((k', v) # m) k = nonempty_list m k"
  by (simp add: nonempty_list_def)

section \<open>The forced output format\<close>

lemma generate_format_snd: "generate_format cfg = (w, f) \<Longrightarrow> f = EXECUTABLE"
  by (auto simp: generate_format_def Let_def split: option.splits if_splits)

lemma profile_format_snd: "profile_format cfg = (w, f) \<Longrightarrow> f = EXECUTABLE"
  by (auto simp: profile_format_def Let_def split: option.splits if_splits)

lemma generate_config_format:
  "snd (generate_config cfg) = Inr c \<Longrightarrow> Format c = EXECUTABLE"
  by (auto simp: generate_config_def Let_def dest: generate_format_snd
           split: if_splits prod.splits sum.splits option.splits)

lemma mtlsc2_warnings_no_rpc: "GenerateRPC c \<notin> set (mtlsc2_warnings i xs)"
  by (induction i xs rule: mtlsc2_warnings.induct) auto

lemma generate_format_no_rpc: "generate_format cfg = (w, f) \<Longrightarrow> GenerateRPC c \<notin> set w"
  by (auto simp: generate_format_def Let_def split: option.splits if_splits)

lemma profile_format_no_rpc:
  "profile_format cfg = (w, f) \<Longrightarrow> SaveImplantProfileRPC n c \<notin> set w"
  by (auto simp: profile_format_def Let_def split: option.splits if_splits)

lemma resolve_c2_no_rpc: "resolve_c2 cfg = (w, r) \<Longrightarrow> GenerateRPC c \<notin> set w"
  by (auto simp: resolve_c2_def Let_def mtlsc2_warnings_no_rpc split: option.splits if_splits)

lemma generate_config_no_rpc: "generate_config cfg = (w, r) \<Longrightarrow> GenerateRPC c \<notin> set w"
  by (auto simp: generate_config_def Let_def dest: generate_format_no_rpc resolve_c2_no_rpc
           split: if_splits prod.splits sum.splits option.splits)

lemma Generate_fst:
  "\<exists>c. fst (Generate rpc config name) = [GenerateRPC c] \<and> Format c = Format config"
  by (auto simp: Generate_def Let_def)

lemma HandleGenerateImplant_sent_format:
  assumes "GenerateRPC c \<in> set (fst (HandleGenerateImplant e args))"
  shows "Format c = EXECUTABLE"
proof (cases "get_map args ''config''")
  case None
  with assms show ?thesis by (simp add: HandleGenerateImplant_def)
next
  case (Some configMap)
  obtain w r where gc: "generate_config configMap = (w, r)"
    by (cases "generate_config configMap")
  have w: "GenerateRPC c \<notin> set w"
    using generate_config_no_rpc [OF gc] .
  show ?thesis
  proof (cases r)
    case (Inl err)
    with assms Some gc w show ?thesis by (auto simp: HandleGenerateImplant_def)
  next
    case (Inr implantConfig)
    then have fmt: "Format implantConfig = EXECUTABLE"
      using generate_config_format [of configMap implantConfig] gc by simp
    obtain c' where
      g: "fst (Generate (rpc_Generate e) implantConfig (implant_name args)) = [GenerateRPC c']"
      and c': "Format c' = Format implantConfig"
      using Generate_fst by blast
    have "set (fst (HandleGenerateImplant e args)) \<subseteq> set w \<union> {GenerateRPC c'}"
      using Some gc Inr g
      by (auto simp: HandleGenerateImplant_def
               split: if_splits prod.splits sum.splits option.splits)
    with assms w c' fmt show ?thesis by auto
  qed
qed

lemma HandleSaveImplantProfile_sent_format:
  "SaveImplantProfileRPC n c \<in> set (fst (HandleSaveImplantProfile rpc pargs))
   \<Longrightarrow> Format c = EXECUTABLE"
  by (auto simp: HandleSaveImplantProfile_def SaveImplantProfile_def
           dest: profile_format_snd profile_format_no_rpc
           split: if_splits prod.splits sum.splits option.splits)

lemma format_key_irrelevant:
  "snd (generate_config ((''format'', v) # cfg)) = snd (generate_config ((''format'', v') # cfg))"
proof -
  have a: "config_goos ((''format'', v) # cfg) = config_goos ((''format'', v') # cfg)"
    by (simp add: config_goos_def split: option.splits)
  have b: "config_goarch ((''format'', v) # cfg) = config_goarch ((''format'', v') # cfg)"
    by (simp add: config_goarch_def)
  have c: "resolve_c2 ((''format'', v) # cfg) = resolve_c2 ((''format'', v') # cfg)"
    by (simp add: resolve_c2_def nonempty_list_other cong: option.case_cong)
  show ?thesis using a b c
    by (auto simp: generate_config_def Let_def dest: generate_format_snd
             split: if_splits prod.splits sum.splits option.splits)
qed

lemma generate_format_warns:
  "get_string cfg ''format'' = Some f \<Longrightarrow>
   is_shared_lib_format (ToLower f) \<or> ToLower f = ''shellcode'' \<or> ToLower f = ''service'' \<Longrightarrow>
   \<exists>w. fst (generate_format cfg) = [Warning w]"
  by (auto simp: generate_format_def Let_def)

lemma profile_format_warns:
  "get_string cfg ''format'' = Some f \<Longrightarrow>
   is_shared_lib_format (ToLower f) \<or> ToLower f = ''shellcode'' \<or> ToLower f = ''service'' \<Longrightarrow>
   \<exists>w. fst (profile_format cfg) = [Warning w]"
  by (auto simp: profile_format_def Let_def)

lemma generate_config_warns:
  "platform_supported (platform_string (config_goos cfg) (config_goarch cfg)) \<Longrightarrow>
   set (fst (generate_format cfg)) \<subseteq> set (fst (generate_config cfg))"
  by (auto simp: generate_config_def Let_def
           split: if_splits prod.splits sum.splits option.splits)

text \<open>
  Claim C5. Whatever format a build request names, the format of the composed
  configuration is \<open>EXECUTABLE\<close>: in what \<open>generate_format\<close> and \<open>profile_format\<close>
  return, in every configuration \<open>HandleGenerateImplant\<close> sends to the server and in
  every profile \<open>HandleSaveImplantProfile\<close> sends. A request for a shared library,
  shellcode or service format prints one warning, which is among the events of the
  request once the platform is accepted. The outcome of composing the configuration is
  the same as with \<open>executable\<close> requested, so no request fails on account of its format.
\<close>

theorem format_forced_executable:
  "snd (generate_format cfg) = EXECUTABLE
   \<and> snd (profile_format cfg) = EXECUTABLE
   \<and> (\<forall>c. GenerateRPC c \<in> set (fst (HandleGenerateImplant e args))
          \<longrightarrow> Format c = EXECUTABLE)
   \<and> (\<forall>n c. SaveImplantProfileRPC n c \<in> set (fst (HandleSaveImplantProfile rpc pargs))
          \<longrightarrow> Format c = EXECUTABLE)
   \<and> (\<forall>f. get_string cfg ''format'' = Some f
            \<and> (is_shared_lib_format (ToLower f) \<or> ToLower f = ''shellcode''
                 \<or> ToLower f = ''service'')
          \<longrightarrow> (\<exists>w. fst (generate_format cfg) = [Warning w])
              \<and> (\<exists>w. fst (profile_format cfg) = [Warning w]))
   \<and> (platform_supported (platform_string (config_goos cfg) (config_goarch cfg))
        \<longrightarrow> set (fst (generate_format cfg)) \<subseteq> set (fst (generate_config cfg)))
   \<and> snd (generate_config ((''format'', v) # cfg))
       = snd (generate_config ((''format'', JString ''executable'') # cfg))"
proof (intro conjI allI impI)
  show "snd (generate_format cfg) = EXECUTABLE"
    using generate_format_snd [of cfg] by (cases "generate_format cfg") simp
  show "snd (profile_format cfg) = EXECUTABLE"
    using profile_format_snd [of cfg] by (cases "profile_format cfg") simp
  show "Format c = EXECUTABLE"
    if "GenerateRPC c \<in> set (fst (HandleGenerateImplant e args))" for c
    using that by (rule HandleGenerateImplant_sent_format)
  show "Format c = EXECUTABLE"
    if "SaveImplantProfileRPC n c \<in> set (fst (HandleSaveImplantProfile rpc pargs))" for n c
    using that by (rule HandleSaveImplantProfile_sent_format)
  show "\<exists>w. fst (generate_format cfg) = [Warning w]"
    if "get_string cfg ''format'' = Some f
        \<and> (is_shared_lib_format (ToLower f) \<or> ToLower f = ''shellcode''
             \<or> ToLower f = ''service'')" for f
    using that generate_format_warns [of cfg f] by blast
  show "\<exists>w. fst (profile_format cfg) = [Warning w]"
    if "get_string cfg ''format'' = Some f
        \<and> (is_shared_lib_format (ToLower f) \<or> ToLower f = ''shellcode''
             \<or> ToLower f = ''service'')" for f
    using that profile_format_warns [of cfg f] by blast
  show "set (fst (generate_format cfg)) \<subseteq> set (fst (generate_config cfg))"
    if "platform_supported (platform_string (config_goos cfg) (config_goarch cfg))"
    using that by (rule generate_config_warns)
  show "snd (generate_config ((''format'', v) # cfg))
        = snd (generate_config ((''format'', JString ''executable'') # cfg))"
    by (rule format_key_irrelevant)
qed

theorem format_forced_executable_witness:
  "GenerateRPC \<lparr>GOOS = ''linux'', GOARCH = ''amd64'', Format = EXECUTABLE,
                C2 = [\<lparr>Priority = 0, URL = ''mtls://10.0.0.1:8888''\<rparr>],
                Name = ''generated-implant''\<rparr>
     \<in> set (fst (HandleGenerateImplant
                  \<lparr>stat_not_exist = (\<lambda>p. False),
                   rpc_Generate = (\<lambda>c. Inr \<lparr>File = Some (CommonFile ''implant'' (Some ''ELF''))\<rparr>)\<rparr>
                  [(''config'', JObject [(''os'', JString ''Linux''),
                                        (''format'', JString ''ShellCode''),
                                        (''mtlsc2'', JArray [JString ''10.0.0.1:8888''])])]))
   \<and> SaveImplantProfileRPC ''p1''
        \<lparr>GOOS = ''linux'', GOARCH = ''amd64'', Format = EXECUTABLE,
         C2 = [\<lparr>Priority = 0, URL = ''mtls://10.0.0.1:8888''\<rparr>], Name = ''''\<rparr>
     \<in> set (fst (HandleSaveImplantProfile (\<lambda>p. Inr p)
                  [(''name'', JString ''p1''),
                   (''config'', JObject [(''os'', JString ''Linux''),
                                         (''format'', JString ''ShellCode''),
                                         (''c2'', JString ''mtls://10.0.0.1:8888'')])]))
   \<and> get_string [(''os'', JString ''Linux''), (''format'', JString ''ShellCode''),
                  (''mtlsc2'', JArray [JString ''10.0.0.1:8888''])] ''format''
       = Some ''ShellCode''
   \<and> ToLower ''ShellCode'' = ''shellcode''
   \<and> platform_supported
        (platform_string
          (config_goos [(''os'', JString ''Linux''), (''format'', JString ''ShellCode''),
                        (''mtlsc2'', JArray [JString ''10.0.0.1:8888''])])
          (config_goarch [(''os'', JString ''Linux''), (''format'', JString ''ShellCode''),
                          (''mtlsc2'', JArray [JString ''10.0.0.1:8888''])]))
   \<and> Warning ''WARNING: Shellcode format requested, but defaulting to executable for compatibility''
     \<in> set (fst (generate_config
                  [(''os'', JString ''Linux''), (''format'', JString ''ShellCode''),
                   (''mtlsc2'', JArray [JString ''10.0.0.1:8888''])]))"
  using format_forced_executable
          [of "[(''os'', JString ''Linux''), (''format'', JString ''ShellCode''),
                (''mtlsc2'', JArray [JString ''10.0.0.1:8888''])]"
              "\<lparr>stat_not_exist = (\<lambda>p. False),
                rpc_Generate = (\<lambda>c. Inr \<lparr>File = Some (CommonFile ''implant'' (Some ''ELF''))\<rparr>)\<rparr>"
              "[(''config'', JObject [(''os'', JString ''Linux''),
                                     (''format'', JString ''ShellCode''),
                                     (''mtlsc2'', JArray [JString ''10.0.0.1:8888''])])]"
              "\<lambda>p. Inr p"
              "[(''name'', JString ''p1''),
                (''config'', JObject [(''os'', JString ''Linux''),
                                      (''format'', JString ''ShellCode''),
                                      (''c2'', JString ''mtls://10.0.0.1:8888'')])]"
              "JString ''ShellCode''"]
  by (simp add: json_defs string_defs platform_defs generate_defs profile_defs Let_def)

section \<open>Endpoint shapes\<close>

lemma map_of_filter_key:
  "map_of (filter (\<lambda>kv. fst kv \<noteq> k) m) k' = (if k' = k then None else map_of m k')"
  by (induction m) auto

lemma get_list_filter:
  "get_list (filter (\<lambda>kv. fst kv \<noteq> k) m) k' = (if k' = k then None else get_list m k')"
  by (simp add: get_list_def map_of_filter_key)

lemma get_string_filter:
  "get_string (filter (\<lambda>kv. fst kv \<noteq> k) m) k' = (if k' = k then None else get_string m k')"
  by (simp add: get_string_def map_of_filter_key)

lemma nonempty_list_filter:
  "nonempty_list (filter (\<lambda>kv. fst kv \<noteq> k) m) k' = (if k' = k then None else nonempty_list m k')"
  by (simp add: nonempty_list_def get_list_filter)

lemma c2_list_wins:
  "nonempty_list cfg ''c2'' = Some xs \<Longrightarrow> resolve_c2 cfg = ([], Inr (True, c2_from_objects 0 xs))"
  by (simp add: resolve_c2_def)

lemma mtlsc2_ignored:
  "nonempty_list cfg ''c2'' = Some xs \<Longrightarrow>
   resolve_c2 cfg = resolve_c2 (filter (\<lambda>kv. fst kv \<noteq> ''mtlsc2'') cfg)"
  by (simp add: resolve_c2_def nonempty_list_filter)

lemma empty_httpc2_falls_through:
  "get_list cfg ''httpc2'' = Some [] \<Longrightarrow>
   resolve_c2 cfg = resolve_c2 (filter (\<lambda>kv. fst kv \<noteq> ''httpc2'') cfg)"
  by (simp add: resolve_c2_def nonempty_list_filter get_list_filter get_string_filter nonempty_list_def
        cong: option.case_cong)

lemma mtlsc2_second:
  "nonempty_list cfg ''c2'' = None \<Longrightarrow> get_list cfg ''mtlsc2'' = Some ms \<Longrightarrow>
   resolve_c2 cfg =
     (mtlsc2_warnings 0 ms,
      if c2_from_strings ''mtls://'' 0 ms = [] \<and> ms \<noteq> [] then Inl (InvalidMtlsc2Err ms)
      else Inr (True, c2_from_strings ''mtls://'' 0 ms))"
  by (simp add: resolve_c2_def Let_def)

lemma httpc2_third:
  "nonempty_list cfg ''c2'' = None \<Longrightarrow> get_list cfg ''mtlsc2'' = None \<Longrightarrow>
   nonempty_list cfg ''httpc2'' = Some hs \<Longrightarrow>
   resolve_c2 cfg = ([], Inr (True, c2_from_strings ''http://'' 0 hs))"
  by (simp add: resolve_c2_def)

lemma httpsc2_fourth:
  "nonempty_list cfg ''c2'' = None \<Longrightarrow> get_list cfg ''mtlsc2'' = None \<Longrightarrow>
   nonempty_list cfg ''httpc2'' = None \<Longrightarrow> nonempty_list cfg ''httpsc2'' = Some hs \<Longrightarrow>
   resolve_c2 cfg = ([], Inr (True, c2_from_strings ''https://'' 0 hs))"
  by (simp add: resolve_c2_def)

lemma c2_string_fifth:
  "nonempty_list cfg ''c2'' = None \<Longrightarrow> get_list cfg ''mtlsc2'' = None \<Longrightarrow>
   nonempty_list cfg ''httpc2'' = None \<Longrightarrow> nonempty_list cfg ''httpsc2'' = None \<Longrightarrow>
   get_string cfg ''c2'' = Some u \<Longrightarrow> u \<noteq> '''' \<Longrightarrow>
   resolve_c2 cfg = ([], Inr (True, [\<lparr>Priority = 0, URL = u\<rparr>]))"
  by (simp add: resolve_c2_def)

lemma c2_from_strings_mem:
  "i < length ms \<Longrightarrow> ms ! i = JString s \<Longrightarrow>
   \<lparr>Priority = of_nat (k + i), URL = (if \<not> HasPrefix s scheme then scheme @ s else s)\<rparr>
     \<in> set (c2_from_strings scheme k ms)"
proof (induction ms arbitrary: i k)
  case Nil
  then show ?case by simp
next
  case (Cons x rest)
  show ?case
  proof (cases i)
    case 0
    with Cons.prems show ?thesis by simp
  next
    case (Suc j)
    with Cons.prems have "j < length rest" "rest ! j = JString s" by simp_all
    from Cons.IH [OF this, of "Suc k"] show ?thesis using Suc by (cases x) simp_all
  qed
qed

lemma c2_from_strings_Nil:
  "c2_from_strings scheme k ms = [] \<longleftrightarrow> (\<forall>s. JString s \<notin> set ms)"
  by (induction scheme k ms rule: c2_from_strings.induct) auto

lemma c2_from_strings_length:
  "length (c2_from_strings scheme k ms)
   = length (filter (\<lambda>x. case x of JString s \<Rightarrow> True | _ \<Rightarrow> False) ms)"
  by (induction scheme k ms rule: c2_from_strings.induct) auto

lemma c2_from_strings_set:
  "c \<in> set (c2_from_strings scheme k ms) \<Longrightarrow>
   \<exists>i s. i < length ms \<and> ms ! i = JString s \<and> Priority c = of_nat (k + i)
         \<and> URL c = (if \<not> HasPrefix s scheme then scheme @ s else s)"
proof (induction scheme k ms rule: c2_from_strings.induct)
  case (1 scheme i)
  then show ?case by simp
next
  case (2 scheme k serverStr rest)
  then show ?case
  proof (cases "c \<in> set (c2_from_strings scheme (Suc k) rest)")
    case True
    with 2 obtain i s where "i < length rest" "rest ! i = JString s" "Priority c = of_nat (Suc k + i)"
      "URL c = (if \<not> HasPrefix s scheme then scheme @ s else s)" by blast
    then show ?thesis by (intro exI[of _ "Suc i"] exI[of _ s]) simp
  next
    case False
    with 2 show ?thesis by (intro exI[of _ 0] exI[of _ serverStr]) auto
  qed
qed (force+)


text \<open>
  Claim C4. The five shapes are tried in the order structured \<open>c2\<close> list, \<open>mtlsc2\<close>,
  \<open>httpc2\<close>, \<open>httpsc2\<close>, \<open>c2\<close> string, and the first that matches decides. With a
  non-empty \<open>c2\<close> list the result is the one the same map without its \<open>mtlsc2\<close> key
  gives; a map whose \<open>httpc2\<close> is the empty list resolves as the same map without the
  \<open>httpc2\<close> key does, so the empty list falls through to the shapes after it.
\<close>

theorem c2_shape_precedence:
  "(nonempty_list cfg ''c2'' = Some xs \<longrightarrow>
      resolve_c2 cfg = ([], Inr (True, c2_from_objects 0 xs))
      \<and> resolve_c2 cfg = resolve_c2 (filter (\<lambda>kv. fst kv \<noteq> ''mtlsc2'') cfg))
   \<and> (nonempty_list cfg ''c2'' = None \<and> get_list cfg ''mtlsc2'' = Some ms \<longrightarrow>
      resolve_c2 cfg =
        (mtlsc2_warnings 0 ms,
         if c2_from_strings ''mtls://'' 0 ms = [] \<and> ms \<noteq> [] then Inl (InvalidMtlsc2Err ms)
         else Inr (True, c2_from_strings ''mtls://'' 0 ms)))
   \<and> (nonempty_list cfg ''c2'' = None \<and> get_list cfg ''mtlsc2'' = None
       \<and> nonempty_list cfg ''httpc2'' = Some hs \<longrightarrow>
      resolve_c2 cfg = ([], Inr (True, c2_from_strings ''http://'' 0 hs)))
   \<and> (nonempty_list cfg ''c2'' = None \<and> get_list cfg ''mtlsc2'' = None
       \<and> nonempty_list cfg ''httpc2'' = None \<and> nonempty_list cfg ''httpsc2'' = Some hss \<longrightarrow>
      resolve_c2 cfg = ([], Inr (True, c2_from_strings ''https://'' 0 hss)))
   \<and> (nonempty_list cfg ''c2'' = None \<and> get_list cfg ''mtlsc2'' = None
       \<and> nonempty_list cfg ''httpc2'' = None \<and> nonempty_list cfg ''httpsc2'' = None
       \<and> get_string cfg ''c2'' = Some u \<and> u \<noteq> '''' \<longrightarrow>
      resolve_c2 cfg = ([], Inr (True, [\<lparr>Priority = 0, URL = u\<rparr>])))
   \<and> (get_list cfg ''httpc2'' = Some [] \<longrightarrow>
      resolve_c2 cfg = resolve_c2 (filter (\<lambda>kv. fst kv \<noteq> ''httpc2'') cfg))"
  using c2_list_wins [of cfg xs] mtlsc2_ignored [of cfg xs] mtlsc2_second [of cfg ms]
    httpc2_third [of cfg hs] httpsc2_fourth [of cfg hss] c2_string_fifth [of cfg u]
    empty_httpc2_falls_through [of cfg]
  by blast

theorem c2_shape_precedence_witness:
  "nonempty_list [(''c2'', JArray [JObject [(''url'', JString ''https://c2.example.com/a'')]]),
                  (''mtlsc2'', JArray [JString ''10.0.0.1''])] ''c2''
     = Some [JObject [(''url'', JString ''https://c2.example.com/a'')]]
   \<and> resolve_c2 [(''c2'', JArray [JObject [(''url'', JString ''https://c2.example.com/a'')]]),
                  (''mtlsc2'', JArray [JString ''10.0.0.1''])]
     = ([], Inr (True, [\<lparr>Priority = 0, URL = ''https://c2.example.com/a''\<rparr>]))
   \<and> get_list [(''httpc2'', JArray []),
               (''httpsc2'', JArray [JString ''c2.example.com/a''])] ''httpc2'' = Some []
   \<and> resolve_c2 [(''httpc2'', JArray []), (''httpsc2'', JArray [JString ''c2.example.com/a''])]
     = ([], Inr (True, [\<lparr>Priority = 0, URL = ''https://c2.example.com/a''\<rparr>]))
   \<and> resolve_c2 [(''mtlsc2'', JArray [JString ''10.0.0.1'']),
                  (''httpc2'', JArray [JString ''c2.example.com/a''])]
     = ([], Inr (True, [\<lparr>Priority = 0, URL = ''mtls://10.0.0.1''\<rparr>]))
   \<and> resolve_c2 [(''httpc2'', JArray [JString ''c2.example.com/a'']),
                  (''httpsc2'', JArray [JString ''c2.example.com/b''])]
     = ([], Inr (True, [\<lparr>Priority = 0, URL = ''http://c2.example.com/a''\<rparr>]))
   \<and> resolve_c2 [(''c2'', JString ''mtls://10.0.0.1:8888'')]
     = ([], Inr (True, [\<lparr>Priority = 0, URL = ''mtls://10.0.0.1:8888''\<rparr>]))"
  using c2_shape_precedence
          [where cfg = "[(''c2'', JArray [JObject [(''url'', JString ''https://c2.example.com/a'')]]),
                         (''mtlsc2'', JArray [JString ''10.0.0.1''])]"
             and xs = "[JObject [(''url'', JString ''https://c2.example.com/a'')]]"]
        c2_shape_precedence
          [where cfg = "[(''httpc2'', JArray []),
                         (''httpsc2'', JArray [JString ''c2.example.com/a''])]"
             and hss = "[JString ''c2.example.com/a'']"]
        c2_shape_precedence
          [where cfg = "[(''mtlsc2'', JArray [JString ''10.0.0.1'']),
                         (''httpc2'', JArray [JString ''c2.example.com/a''])]"
             and ms = "[JString ''10.0.0.1'']"]
        c2_shape_precedence
          [where cfg = "[(''httpc2'', JArray [JString ''c2.example.com/a'']),
                         (''httpsc2'', JArray [JString ''c2.example.com/b''])]"
             and hs = "[JString ''c2.example.com/a'']"]
        c2_shape_precedence
          [where cfg = "[(''c2'', JString ''mtls://10.0.0.1:8888'')]"
             and u = "''mtls://10.0.0.1:8888''"]
  by (simp add: json_defs HasPrefix_def)

section \<open>The \<open>mtlsc2\<close> shape\<close>

lemma generate_config_Inl:
  "get_map args ''config'' = Some cfg \<Longrightarrow> snd (generate_config cfg) = Inl err \<Longrightarrow>
   HandleGenerateImplant e args = (fst (generate_config cfg), Inl err)"
  by (cases "generate_config cfg") (simp add: HandleGenerateImplant_def)

lemma resolve_c2_Inl:
  "snd (resolve_c2 cfg) = Inl err \<Longrightarrow> \<exists>err'. snd (generate_config cfg) = Inl err'"
  by (cases "resolve_c2 cfg"; cases "generate_format cfg")
     (auto simp: generate_config_def Let_def)

lemma resolve_c2_Inl_supported:
  "snd (resolve_c2 cfg) = Inl err \<Longrightarrow>
   platform_supported (platform_string (config_goos cfg) (config_goarch cfg)) \<Longrightarrow>
   snd (generate_config cfg) = Inl err"
  by (cases "resolve_c2 cfg"; cases "generate_format cfg")
     (auto simp: generate_config_def Let_def)

text \<open>
  Claim C8. When the \<open>mtlsc2\<close> shape is the one resolved (no non-empty \<open>c2\<close> list
  before it), every string of the list that does not start with \<open>mtls://\<close> gives an
  endpoint with URL \<open>mtls://\<close> followed by the string and with priority \<open>uint32\<close> of
  its index in the list, which is the index itself below \<open>2^32\<close>; every endpoint
  comes from a string of the list in this way. A non-empty list without any string makes
  the resolution and the whole request fail, with nothing sent to the server. The list
  \<open>["10.0.0.1"]\<close> gives the one endpoint \<open>mtls://10.0.0.1\<close> with priority 0, and
  the configuration composed from it passes every check.
\<close>

theorem mtlsc2_endpoints:
  assumes "nonempty_list cfg ''c2'' = None" and "get_list cfg ''mtlsc2'' = Some ms"
  shows "(\<forall>i s. i < length ms \<and> ms ! i = JString s \<and> \<not> HasPrefix s ''mtls://'' \<longrightarrow>
            (\<exists>c2. snd (resolve_c2 cfg) = Inr (True, c2)
                  \<and> \<lparr>Priority = of_nat i, URL = ''mtls://'' @ s\<rparr> \<in> set c2
                  \<and> (i < 2 ^ 32 \<longrightarrow> unat (of_nat i :: 32 word) = i)))
       \<and> (\<forall>c2 c. snd (resolve_c2 cfg) = Inr (True, c2) \<and> c \<in> set c2 \<longrightarrow>
            (\<exists>i s. i < length ms \<and> ms ! i = JString s \<and> Priority c = of_nat i
                   \<and> URL c = (if \<not> HasPrefix s ''mtls://'' then ''mtls://'' @ s else s)))
       \<and> (ms \<noteq> [] \<and> (\<forall>s. JString s \<notin> set ms) \<longrightarrow>
            snd (resolve_c2 cfg) = Inl (InvalidMtlsc2Err ms)
            \<and> (\<forall>c. GenerateRPC c \<notin> set (fst (generate_config cfg)))
            \<and> (\<forall>e args. get_map args ''config'' = Some cfg \<longrightarrow>
                  (\<exists>err. HandleGenerateImplant e args = (fst (generate_config cfg), Inl err))))
       \<and> resolve_c2 [(''mtlsc2'', JArray [JString ''10.0.0.1''])]
           = ([], Inr (True, [\<lparr>Priority = 0, URL = ''mtls://10.0.0.1''\<rparr>]))
       \<and> generate_config [(''mtlsc2'', JArray [JString ''10.0.0.1''])]
           = ([], Inr \<lparr>GOOS = ''windows'', GOARCH = ''amd64'', Format = EXECUTABLE,
                         C2 = [\<lparr>Priority = 0, URL = ''mtls://10.0.0.1''\<rparr>], Name = ''''\<rparr>)"
proof (intro conjI allI impI)
  note r = mtlsc2_second [OF assms]
  show "\<exists>c2. snd (resolve_c2 cfg) = Inr (True, c2)
              \<and> \<lparr>Priority = of_nat i, URL = ''mtls://'' @ s\<rparr> \<in> set c2
              \<and> (i < 2 ^ 32 \<longrightarrow> unat (of_nat i :: 32 word) = i)"
    if h: "i < length ms \<and> ms ! i = JString s \<and> \<not> HasPrefix s ''mtls://''" for i s
  proof -
    have m: "\<lparr>Priority = of_nat i, URL = ''mtls://'' @ s\<rparr> \<in> set (c2_from_strings ''mtls://'' 0 ms)"
      using c2_from_strings_mem [of i ms s 0 "''mtls://''"] h by simp
    then have "c2_from_strings ''mtls://'' 0 ms \<noteq> []" by auto
    then have "snd (resolve_c2 cfg) = Inr (True, c2_from_strings ''mtls://'' 0 ms)"
      using r by simp
    moreover have "i < 2 ^ 32 \<longrightarrow> unat (of_nat i :: 32 word) = i"
      by (simp add: unat_of_nat)
    ultimately show ?thesis using m by blast
  qed
  show "\<exists>i s. i < length ms \<and> ms ! i = JString s \<and> Priority c = of_nat i
              \<and> URL c = (if \<not> HasPrefix s ''mtls://'' then ''mtls://'' @ s else s)"
    if h: "snd (resolve_c2 cfg) = Inr (True, c2) \<and> c \<in> set c2" for c2 c
  proof -
    have "c2 = c2_from_strings ''mtls://'' 0 ms"
      using h r by (simp split: if_splits)
    then show ?thesis
      using c2_from_strings_set [of c "''mtls://''" 0 ms] h by simp
  qed
  show "snd (resolve_c2 cfg) = Inl (InvalidMtlsc2Err ms)"
    if "ms \<noteq> [] \<and> (\<forall>s. JString s \<notin> set ms)"
    using that r c2_from_strings_Nil [of "''mtls://''" 0 ms] by simp
  show "GenerateRPC c \<notin> set (fst (generate_config cfg))" for c
    using generate_config_no_rpc [of cfg "fst (generate_config cfg)" "snd (generate_config cfg)"]
    by simp
  show "\<exists>err. HandleGenerateImplant e args = (fst (generate_config cfg), Inl err)"
    if h: "ms \<noteq> [] \<and> (\<forall>s. JString s \<notin> set ms)" and a: "get_map args ''config'' = Some cfg"
    for e args
  proof -
    have "snd (resolve_c2 cfg) = Inl (InvalidMtlsc2Err ms)"
      using h r c2_from_strings_Nil [of "''mtls://''" 0 ms] by simp
    then obtain err where "snd (generate_config cfg) = Inl err"
      using resolve_c2_Inl by blast
    then show ?thesis using generate_config_Inl [OF a] by blast
  qed
  show "resolve_c2 [(''mtlsc2'', JArray [JString ''10.0.0.1''])]
        = ([], Inr (True, [\<lparr>Priority = 0, URL = ''mtls://10.0.0.1''\<rparr>]))"
    by (simp add: resolve_c2_def json_defs HasPrefix_def)
  show "generate_config [(''mtlsc2'', JArray [JString ''10.0.0.1''])]
        = ([], Inr \<lparr>GOOS = ''windows'', GOARCH = ''amd64'', Format = EXECUTABLE,
                      C2 = [\<lparr>Priority = 0, URL = ''mtls://10.0.0.1''\<rparr>], Name = ''''\<rparr>)"
    by (simp add: json_defs string_defs platform_defs generate_defs Let_def)
qed

theorem mtlsc2_endpoints_witness:
  "nonempty_list [(''mtlsc2'', JArray [JNumber 7, JString ''10.0.0.1''])] ''c2'' = None
   \<and> get_list [(''mtlsc2'', JArray [JNumber 7, JString ''10.0.0.1''])] ''mtlsc2''
       = Some [JNumber 7, JString ''10.0.0.1'']
   \<and> [JNumber 7, JString ''10.0.0.1''] ! 1 = JString ''10.0.0.1''
   \<and> \<not> HasPrefix ''10.0.0.1'' ''mtls://''
   \<and> snd (resolve_c2 [(''mtlsc2'', JArray [JNumber 7, JString ''10.0.0.1''])])
       = Inr (True, [\<lparr>Priority = 1, URL = ''mtls://10.0.0.1''\<rparr>])
   \<and> unat (of_nat 1 :: 32 word) = 1
   \<and> get_list [(''mtlsc2'', JArray [JNumber 7])] ''mtlsc2'' = Some [JNumber 7]
   \<and> snd (resolve_c2 [(''mtlsc2'', JArray [JNumber 7])]) = Inl (InvalidMtlsc2Err [JNumber 7])
   \<and> HandleGenerateImplant
        \<lparr>stat_not_exist = (\<lambda>p. False), rpc_Generate = (\<lambda>c. Inr \<lparr>File = None\<rparr>)\<rparr>
        [(''config'', JObject [(''mtlsc2'', JArray [JNumber 7])])]
       = ([WarningInvalidMtlsc2 0 (JNumber 7)], Inl (InvalidMtlsc2Err [JNumber 7]))"
  using mtlsc2_endpoints [of "[(''mtlsc2'', JArray [JNumber 7, JString ''10.0.0.1''])]"
                             "[JNumber 7, JString ''10.0.0.1'']"]
        mtlsc2_endpoints [of "[(''mtlsc2'', JArray [JNumber 7])]" "[JNumber 7]"]
  by (simp add: json_defs string_defs platform_defs generate_defs Let_def)

section \<open>Bare hosts under \<open>httpc2\<close> and \<open>httpsc2\<close>\<close>

lemma c2_from_strings_Cons:
  "JString s0 \<in> set hs \<Longrightarrow>
   \<exists>i s rest. JString s \<in> set hs \<and>
     c2_from_strings scheme k hs
       = \<lparr>Priority = of_nat i, URL = (if \<not> HasPrefix s scheme then scheme @ s else s)\<rparr> # rest"
  by (induction scheme k hs rule: c2_from_strings.induct) auto

lemma Count_no_slash: "CHR ''/'' \<notin> set s \<Longrightarrow> Count s (CHR ''/'') = 0"
  by (induction s) (auto simp: Count_def)

lemma HasPrefix_set: "HasPrefix s scheme \<Longrightarrow> c \<in> set scheme \<Longrightarrow> c \<in> set s"
  by (auto simp: HasPrefix_def prefix_def)

lemma validate_http_bare:
  assumes "CHR ''/'' \<notin> set s"
  shows "validate_c2 i (\<lparr>Priority = pr, URL = ''http://'' @ s\<rparr> # rest)
         = Some (NewInvalidArgsError (''invalid HTTP(S) URL format at index '' @ Itoa i @ '': ''
                   @ ''http://'' @ s @ '' - format should include host, e.g., http://domain.com''))"
    and "Count (''http://'' @ s) (CHR ''/'') = 2"
  using assms Count_no_slash [OF assms] by (simp_all add: HasPrefix_def Count_def)

lemma validate_https_bare:
  assumes "CHR ''/'' \<notin> set s"
  shows "validate_c2 i (\<lparr>Priority = pr, URL = ''https://'' @ s\<rparr> # rest)
         = Some (NewInvalidArgsError (''invalid HTTP(S) URL format at index '' @ Itoa i @ '': ''
                   @ ''https://'' @ s @ '' - format should include host, e.g., http://domain.com''))"
    and "Count (''https://'' @ s) (CHR ''/'') = 2"
  using assms Count_no_slash [OF assms] by (simp_all add: HasPrefix_def Count_def)

lemma validate_bare:
  assumes "scheme = ''http://'' \<or> scheme = ''https://''" and "CHR ''/'' \<notin> set s"
  shows "validate_c2 0 (\<lparr>Priority = pr, URL = scheme @ s\<rparr> # rest)
         = Some (NewInvalidArgsError (''invalid HTTP(S) URL format at index 0: ''
                   @ scheme @ s @ '' - format should include host, e.g., http://domain.com''))
         \<and> Count (scheme @ s) (CHR ''/'') = 2"
proof (cases "scheme = ''http://''")
  case True
  then show ?thesis
    using validate_http_bare(1) [OF assms(2), of 0 pr rest] validate_http_bare(2) [OF assms(2)]
    by (simp add: Itoa_0)
next
  case False
  then have "scheme = ''https://''" using assms(1) by simp
  then show ?thesis
    using validate_https_bare(1) [OF assms(2), of 0 pr rest] validate_https_bare(2) [OF assms(2)]
    by (simp add: Itoa_0)
qed

lemma generate_config_resolved:
  assumes "resolve_c2 cfg = ([], Inr (True, c # rest))"
    and "platform_supported (platform_string (config_goos cfg) (config_goarch cfg))"
    and "validate_c2 0 (c # rest) = Some err"
  shows "snd (generate_config cfg) = Inl err"
  using assms by (cases "generate_format cfg") (simp add: generate_config_def Let_def)

lemma generate_config_resolved_fails:
  assumes "resolve_c2 cfg = ([], Inr (True, c # rest))"
    and "validate_c2 0 (c # rest) = Some err"
  shows "\<exists>err'. snd (generate_config cfg) = Inl err'"
  using assms by (cases "generate_format cfg") (simp add: generate_config_def Let_def)

text \<open>
  Claim C10. When the endpoints come from \<open>httpc2\<close> (or from \<open>httpsc2\<close>, \<open>httpc2\<close>
  being absent or empty), the list has a string, and no string of the list holds a
  \<open>/\<close>, the request fails and nothing is sent to the server. On a supported platform
  the failure is the invalid HTTP(S) URL format error at index 0, for the first
  endpoint, whose URL is the scheme followed by a string of the list and holds exactly
  two \<open>/\<close>.
\<close>

theorem bare_host_http_rejected:
  assumes "nonempty_list cfg ''c2'' = None" and "get_list cfg ''mtlsc2'' = None"
    and "(nonempty_list cfg ''httpc2'' = Some hs \<and> scheme = ''http://'')
         \<or> (nonempty_list cfg ''httpc2'' = None \<and> nonempty_list cfg ''httpsc2'' = Some hs
             \<and> scheme = ''https://'')"
    and "\<forall>s. JString s \<in> set hs \<longrightarrow> CHR ''/'' \<notin> set s"
    and "JString s0 \<in> set hs"
  shows "(\<exists>err. snd (generate_config cfg) = Inl err
           \<and> (\<forall>e args. get_map args ''config'' = Some cfg \<longrightarrow>
                 HandleGenerateImplant e args = (fst (generate_config cfg), Inl err)))
       \<and> (\<forall>c. GenerateRPC c \<notin> set (fst (generate_config cfg)))
       \<and> (platform_supported (platform_string (config_goos cfg) (config_goarch cfg)) \<longrightarrow>
            (\<exists>s. JString s \<in> set hs \<and> Count (scheme @ s) (CHR ''/'') = 2
                 \<and> snd (generate_config cfg)
                     = Inl (NewInvalidArgsError
                              (''invalid HTTP(S) URL format at index 0: '' @ scheme @ s
                                 @ '' - format should include host, e.g., http://domain.com''))))"
proof -
  have sch: "scheme = ''http://'' \<or> scheme = ''https://''" using assms(3) by auto
  have res: "resolve_c2 cfg = ([], Inr (True, c2_from_strings scheme 0 hs))"
    using assms(1,2,3) httpc2_third [of cfg hs] httpsc2_fourth [of cfg hs] by auto
  obtain i s rest where s: "JString s \<in> set hs"
    and c2: "c2_from_strings scheme 0 hs
             = \<lparr>Priority = of_nat i, URL = (if \<not> HasPrefix s scheme then scheme @ s else s)\<rparr> # rest"
    using c2_from_strings_Cons [OF assms(5), of scheme 0] by blast
  have ns: "CHR ''/'' \<notin> set s" using assms(4) s by blast
  have "CHR ''/'' \<in> set scheme" using sch by auto
  then have "\<not> HasPrefix s scheme" using HasPrefix_set ns by blast
  then have c2': "c2_from_strings scheme 0 hs = \<lparr>Priority = of_nat i, URL = scheme @ s\<rparr> # rest"
    using c2 by simp
  let ?err = "NewInvalidArgsError (''invalid HTTP(S) URL format at index 0: '' @ scheme @ s
                 @ '' - format should include host, e.g., http://domain.com'')"
  have v: "validate_c2 0 (\<lparr>Priority = of_nat i, URL = scheme @ s\<rparr> # rest) = Some ?err"
    and cnt: "Count (scheme @ s) (CHR ''/'') = 2"
    using validate_bare [OF sch ns, of "of_nat i" rest] by auto
  have res': "resolve_c2 cfg = ([], Inr (True, \<lparr>Priority = of_nat i, URL = scheme @ s\<rparr> # rest))"
    using res c2' by simp
  obtain err where err: "snd (generate_config cfg) = Inl err"
    using generate_config_resolved_fails [OF res' v] by blast
  have a: "\<exists>err. snd (generate_config cfg) = Inl err
             \<and> (\<forall>e args. get_map args ''config'' = Some cfg \<longrightarrow>
                   HandleGenerateImplant e args = (fst (generate_config cfg), Inl err))"
    using err generate_config_Inl by blast
  have b: "\<forall>c. GenerateRPC c \<notin> set (fst (generate_config cfg))"
    using generate_config_no_rpc [of cfg "fst (generate_config cfg)" "snd (generate_config cfg)"]
    by simp
  have c: "platform_supported (platform_string (config_goos cfg) (config_goarch cfg)) \<longrightarrow>
            (\<exists>s. JString s \<in> set hs \<and> Count (scheme @ s) (CHR ''/'') = 2
                 \<and> snd (generate_config cfg)
                     = Inl (NewInvalidArgsError
                              (''invalid HTTP(S) URL format at index 0: '' @ scheme @ s
                                 @ '' - format should include host, e.g., http://domain.com'')))"
    using generate_config_resolved [OF res' _ v] s cnt by blast
  from a b c show ?thesis by blast
qed

theorem bare_host_http_rejected_witness:
  "nonempty_list [(''httpc2'', JArray [JString ''10.0.0.1''])] ''c2'' = None
   \<and> get_list [(''httpc2'', JArray [JString ''10.0.0.1''])] ''mtlsc2'' = None
   \<and> nonempty_list [(''httpc2'', JArray [JString ''10.0.0.1''])] ''httpc2''
       = Some [JString ''10.0.0.1'']
   \<and> CHR ''/'' \<notin> set ''10.0.0.1''
   \<and> platform_supported
        (platform_string (config_goos [(''httpc2'', JArray [JString ''10.0.0.1''])])
                         (config_goarch [(''httpc2'', JArray [JString ''10.0.0.1''])]))
   \<and> (\<forall>c. GenerateRPC c
            \<notin> set (fst (generate_config [(''httpc2'', JArray [JString ''10.0.0.1''])])))
   \<and> Count ''http://10.0.0.1'' (CHR ''/'') = 2
   \<and> HandleGenerateImplant
        \<lparr>stat_not_exist = (\<lambda>p. False), rpc_Generate = (\<lambda>c. Inr \<lparr>File = None\<rparr>)\<rparr>
        [(''config'', JObject [(''httpc2'', JArray [JString ''10.0.0.1''])])]
       = ([], Inl (Err ''invalid arguments: invalid HTTP(S) URL format at index 0: http://10.0.0.1 - format should include host, e.g., http://domain.com''))
   \<and> nonempty_list [(''httpsc2'', JArray [JNumber 1, JString ''c2.example.com:443''])] ''httpc2''
       = None
   \<and> nonempty_list [(''httpsc2'', JArray [JNumber 1, JString ''c2.example.com:443''])] ''httpsc2''
       = Some [JNumber 1, JString ''c2.example.com:443'']
   \<and> (\<forall>c. GenerateRPC c
            \<notin> set (fst (generate_config
                           [(''httpsc2'', JArray [JNumber 1, JString ''c2.example.com:443''])])))
   \<and> snd (generate_config [(''httpsc2'', JArray [JNumber 1, JString ''c2.example.com:443''])])
       = Inl (Err ''invalid arguments: invalid HTTP(S) URL format at index 0: https://c2.example.com:443 - format should include host, e.g., http://domain.com'')"
proof -
  let ?cfg = "[(''httpc2'', JArray [JString ''10.0.0.1''])]"
  let ?cfgs = "[(''httpsc2'', JArray [JNumber 1, JString ''c2.example.com:443''])]"
  have a: "nonempty_list ?cfg ''c2'' = None" by (simp add: json_defs)
  have b: "get_list ?cfg ''mtlsc2'' = None" by (simp add: json_defs)
  have c: "nonempty_list ?cfg ''httpc2'' = Some [JString ''10.0.0.1'']"
    by (simp add: json_defs)
  have c': "(nonempty_list ?cfg ''httpc2'' = Some [JString ''10.0.0.1'']
               \<and> ''http://'' = ''http://'')
            \<or> (nonempty_list ?cfg ''httpc2'' = None
               \<and> nonempty_list ?cfg ''httpsc2'' = Some [JString ''10.0.0.1'']
               \<and> ''http://'' = ''https://'')"
    using c by simp
  have d: "\<forall>s. JString s \<in> set [JString ''10.0.0.1''] \<longrightarrow> CHR ''/'' \<notin> set s" by simp
  have e: "JString ''10.0.0.1'' \<in> set [JString ''10.0.0.1'']" by simp
  have p: "platform_supported (platform_string (config_goos ?cfg) (config_goarch ?cfg))"
    by (simp add: json_defs platform_defs)
  have ev: "HandleGenerateImplant
        \<lparr>stat_not_exist = (\<lambda>p. False), rpc_Generate = (\<lambda>c. Inr \<lparr>File = None\<rparr>)\<rparr>
        [(''config'', JObject ?cfg)]
       = ([], Inl (Err ''invalid arguments: invalid HTTP(S) URL format at index 0: http://10.0.0.1 - format should include host, e.g., http://domain.com''))"
    by (simp add: json_defs string_defs platform_defs generate_defs Let_def Itoa_0)
  have cnt: "Count ''http://10.0.0.1'' (CHR ''/'') = 2" by (simp add: Count_def)
  have n: "\<forall>c. GenerateRPC c \<notin> set (fst (generate_config ?cfg))"
    using bare_host_http_rejected [OF a b c' d e] by blast
  have sa: "nonempty_list ?cfgs ''c2'' = None" by (simp add: json_defs)
  have sb: "get_list ?cfgs ''mtlsc2'' = None" by (simp add: json_defs)
  have sc1: "nonempty_list ?cfgs ''httpc2'' = None" by (simp add: json_defs)
  have sc2: "nonempty_list ?cfgs ''httpsc2'' = Some [JNumber 1, JString ''c2.example.com:443'']"
    by (simp add: json_defs)
  have sc: "(nonempty_list ?cfgs ''httpc2'' = Some [JNumber 1, JString ''c2.example.com:443'']
               \<and> ''https://'' = ''http://'')
            \<or> (nonempty_list ?cfgs ''httpc2'' = None
               \<and> nonempty_list ?cfgs ''httpsc2'' = Some [JNumber 1, JString ''c2.example.com:443'']
               \<and> ''https://'' = ''https://'')"
    using sc1 sc2 by simp
  have sd: "\<forall>s. JString s \<in> set [JNumber 1, JString ''c2.example.com:443'']
               \<longrightarrow> CHR ''/'' \<notin> set s" by simp
  have se: "JString ''c2.example.com:443'' \<in> set [JNumber 1, JString ''c2.example.com:443'']"
    by simp
  have sn: "\<forall>c. GenerateRPC c \<notin> set (fst (generate_config ?cfgs))"
    using bare_host_http_rejected [OF sa sb sc sd se] by blast
  have sev: "snd (generate_config ?cfgs)
       = Inl (Err ''invalid arguments: invalid HTTP(S) URL format at index 0: https://c2.example.com:443 - format should include host, e.g., http://domain.com'')"
    by (simp add: json_defs string_defs platform_defs generate_defs Let_def Itoa_0)
  show ?thesis using a b c p n cnt ev sc1 sc2 sn sev by simp
qed

section \<open>Platform validation in the two flows\<close>

lemma Contains_mid: "Contains (a @ p @ b) p"
  by (simp add: Contains_def)

lemma Contains_right: "Contains b q \<Longrightarrow> Contains (a @ b) q"
  by (auto simp: Contains_def sublist_append)

lemma Contains_left: "Contains a q \<Longrightarrow> Contains (a @ b) q"
  by (auto simp: Contains_def sublist_append)

text \<open>
  \<open>HandleGenerateImplant\<close> refuses a pair outside the supported set before it looks
  at the format or the endpoints; its error names the pair and the six supported ones.
\<close>

lemma HandleGenerateImplant_rejects_platform:
  assumes "get_map args ''config'' = Some cfg"
    and "\<not> platform_supported (platform_string (config_goos cfg) (config_goarch cfg))"
  shows "HandleGenerateImplant e args
         = ([], Inl (unsupported_platform_error
                       (platform_string (config_goos cfg) (config_goarch cfg))))"
  using assms by (simp add: HandleGenerateImplant_def generate_config_def Let_def)

lemma unsupported_platform_error_text:
  "\<exists>t. unsupported_platform_error p = Err t \<and> Contains t p
       \<and> Contains t ''windows/amd64'' \<and> Contains t ''windows/386''
       \<and> Contains t ''linux/amd64'' \<and> Contains t ''linux/386''
       \<and> Contains t ''darwin/amd64'' \<and> Contains t ''darwin/arm64''"
proof -
  let ?a = "''invalid arguments: unsupported platform: ''"
  let ?b = "'' - supported platforms are: windows/amd64, windows/386, linux/amd64, linux/386, darwin/amd64, darwin/arm64''"
  have t: "unsupported_platform_error p = Err (?a @ p @ ?b)"
    by (simp add: unsupported_platform_error_def NewInvalidArgsError_def)
  have b: "Contains ?b ''windows/amd64''" "Contains ?b ''windows/386''"
     "Contains ?b ''linux/amd64''" "Contains ?b ''linux/386''"
     "Contains ?b ''darwin/amd64''" "Contains ?b ''darwin/arm64''"
    by (simp_all add: Contains_def sublist_Cons_right)
  have "Contains (?a @ p @ ?b) q" if "Contains ?b q" for q
    using that by (intro Contains_right)
  with t b show ?thesis using Contains_mid [of ?a p ?b] by blast
qed

text \<open>
  Claim C6. The claim holds for the generate flow (the two lemmas above) and fails for
  the save-profile flow: \<open>HandleSaveImplantProfile\<close> canonicalises the pair and applies
  the defaults as \<open>HandleGenerateImplant\<close> does, but has no check against the supported
  set. With \<open>os = darwin\<close> and \<open>arch = 386\<close>, a pair outside the set, the profile is
  sent to the server and the request succeeds, where the generate flow answers the same
  configuration with the unsupported-platform error and sends nothing.
\<close>

theorem save_profile_unsupported_platform_sent:
  "\<not> platform_supported (platform_string ''darwin'' ''386'')
   \<and> HandleSaveImplantProfile (\<lambda>p. Inr p)
        [(''name'', JString ''p1''),
         (''config'', JObject [(''os'', JString ''darwin''), (''arch'', JString ''386''),
                               (''c2'', JString ''mtls://10.0.0.1:8888'')])]
     = ([SaveImplantProfileRPC ''p1''
           \<lparr>GOOS = ''darwin'', GOARCH = ''386'', Format = EXECUTABLE,
            C2 = [\<lparr>Priority = 0, URL = ''mtls://10.0.0.1:8888''\<rparr>], Name = ''''\<rparr>],
        Inr \<lparr>ProfileName = ''p1'',
             Config = \<lparr>GOOS = ''darwin'', GOARCH = ''386'', Format = EXECUTABLE,
                       C2 = [\<lparr>Priority = 0, URL = ''mtls://10.0.0.1:8888''\<rparr>],
                       Name = ''''\<rparr>\<rparr>)
   \<and> HandleGenerateImplant
        \<lparr>stat_not_exist = (\<lambda>p. False), rpc_Generate = (\<lambda>c. Inr \<lparr>File = None\<rparr>)\<rparr>
        [(''name'', JString ''p1''),
         (''config'', JObject [(''os'', JString ''darwin''), (''arch'', JString ''386''),
                               (''c2'', JString ''mtls://10.0.0.1:8888'')])]
     = ([], Inl (Err ''invalid arguments: unsupported platform: darwin/386 - supported platforms are: windows/amd64, windows/386, linux/amd64, linux/386, darwin/amd64, darwin/arm64''))"
  by (simp add: json_defs string_defs platform_defs generate_defs profile_defs Let_def)

section \<open>Wording of build failures\<close>









section \<open>Properties of the output normalisation\<close>

lemma ReplaceAll_Nil: "old \<noteq> [] \<Longrightarrow> ReplaceAll [] old new = []"
  by (simp add: ReplaceAll.simps)

lemma ReplaceAll_Cons:
  "old \<noteq> [] \<Longrightarrow>
   ReplaceAll (x # xs) old new =
     (if prefix old (x # xs) then new @ ReplaceAll (drop (length old) (x # xs)) old new
      else x # ReplaceAll xs old new)"
  by (subst ReplaceAll.simps) simp

lemma ReplaceAll_byte:
  "ReplaceAll s [c] new = concat (map (\<lambda>x. if x = c then new else [x]) s)"
  by (induction s) (auto simp: ReplaceAll_Nil ReplaceAll_Cons)

lemma ReplaceAll_delete_byte: "ReplaceAll s [c] [] = filter (\<lambda>x. x \<noteq> c) s"
  by (induction s) (simp_all add: ReplaceAll_Nil ReplaceAll_Cons)

lemma ReplaceAll_map_byte: "ReplaceAll s [c] [d] = map (\<lambda>x. if x = c then d else x) s"
  by (induction s) (auto simp: ReplaceAll_Nil ReplaceAll_Cons)





lemma space_encodings_nonempty: "e \<in> set space_encodings \<Longrightarrow> e \<noteq> []"
  by (auto simp: space_encodings_def)

lemma leading_space_0_iff:
  "leading_space s = 0 \<longleftrightarrow>
     (s = [] \<or> (\<not> asciiSpace (hd s) \<and> (\<forall>e \<in> set space_encodings. \<not> prefix e s)))"
proof (cases s)
  case Nil
  then show ?thesis by (simp add: leading_space_def)
next
  case (Cons c cs)
  show ?thesis
  proof (cases "find (\<lambda>e. prefix e s) space_encodings")
    case None
    then have a: "\<forall>e \<in> set space_encodings. \<not> prefix e s"
      by (simp add: find_None_iff)
    have "leading_space s = (if asciiSpace c then 1 else 0)"
      using Cons None by (simp add: leading_space_def)
    then show ?thesis using a Cons by auto
  next
    case (Some e)
    then have "e \<in> set space_encodings" "prefix e s"
      by (auto simp: find_Some_iff)
    then show ?thesis using Cons Some space_encodings_nonempty [of e]
      by (auto simp: leading_space_def)
  qed
qed

lemma trailing_space_0_iff:
  "trailing_space s = 0 \<longleftrightarrow>
     (s = [] \<or> (\<not> asciiSpace (last s) \<and> (\<forall>e \<in> set space_encodings. \<not> suffix e s)))"
proof (cases "s = []")
  case True
  then show ?thesis by (simp add: trailing_space_def)
next
  case False
  show ?thesis
  proof (cases "find (\<lambda>e. suffix e s) space_encodings")
    case None
    then have a: "\<forall>e \<in> set space_encodings. \<not> suffix e s"
      by (simp add: find_None_iff)
    have "trailing_space s = (if asciiSpace (last s) then 1 else 0)"
      using False None by (simp add: trailing_space_def)
    then show ?thesis using a False by auto
  next
    case (Some e)
    then have "e \<in> set space_encodings" "suffix e s"
      by (auto simp: find_Some_iff)
    then show ?thesis using False Some space_encodings_nonempty [of e]
      by (auto simp: trailing_space_def)
  qed
qed

lemma TrimLeft_leading: "leading_space (TrimLeft s) = 0"
proof (induction s rule: TrimLeft.induct)
  case (1 s)
  show ?case
  proof (cases "leading_space s = 0")
    case True
    then show ?thesis by (simp add: TrimLeft.simps)
  next
    case False
    moreover have "TrimLeft s = TrimLeft (drop (leading_space s) s)"
      using False by (subst TrimLeft.simps) simp
    ultimately show ?thesis using 1 by simp
  qed
qed

lemma TrimRight_trailing: "trailing_space (TrimRight s) = 0"
proof (induction s rule: TrimRight.induct)
  case (1 s)
  show ?case
  proof (cases "trailing_space s = 0")
    case True
    then show ?thesis by (simp add: TrimRight.simps)
  next
    case False
    moreover have "TrimRight s = TrimRight (take (length s - trailing_space s) s)"
      using False by (subst TrimRight.simps) simp
    ultimately show ?thesis using 1 by simp
  qed
qed

lemma TrimRight_prefix: "prefix (TrimRight s) s"
proof (induction s rule: TrimRight.induct)
  case (1 s)
  show ?case
  proof (cases "trailing_space s = 0")
    case True
    then show ?thesis by (simp add: TrimRight.simps)
  next
    case False
    then have "prefix (TrimRight (take (length s - trailing_space s) s))
                 (take (length s - trailing_space s) s)"
      using 1 by simp
    moreover have "prefix (take (length s - trailing_space s) s) s" by (rule take_is_prefix)
    moreover have "TrimRight s = TrimRight (take (length s - trailing_space s) s)"
      using False by (subst TrimRight.simps) simp
    ultimately show ?thesis by (metis prefix_order.order_trans)
  qed
qed

lemma leading_space_prefix:
  assumes "prefix p s" and "leading_space s = 0"
  shows "leading_space p = 0"
proof (cases "p = []")
  case True
  then show ?thesis by (simp add: leading_space_def)
next
  case False
  then have s: "s \<noteq> []" and hd: "hd p = hd s" using assms(1) by (auto simp: prefix_def)
  have "\<not> prefix e p" if "e \<in> set space_encodings" for e
  proof
    assume "prefix e p"
    then have "prefix e s" using assms(1) by (metis prefix_order.order_trans)
    then show False using assms(2) s that by (auto simp: leading_space_0_iff)
  qed
  then show ?thesis using assms(2) s hd False by (auto simp: leading_space_0_iff)
qed

lemma TrimSpace_trimmed:
  "leading_space (TrimSpace s) = 0 \<and> trailing_space (TrimSpace s) = 0"
  unfolding TrimSpace_def
  using leading_space_prefix [OF TrimRight_prefix TrimLeft_leading] TrimRight_trailing
  by blast

lemma TrimLeft_suffix: "suffix (TrimLeft s) s"
proof (induction s rule: TrimLeft.induct)
  case (1 s)
  show ?case
  proof (cases "leading_space s = 0")
    case True
    then show ?thesis by (simp add: TrimLeft.simps)
  next
    case False
    then have "suffix (TrimLeft (drop (leading_space s) s)) (drop (leading_space s) s)"
      using 1 by simp
    moreover have "suffix (drop (leading_space s) s) s" by (rule suffix_drop)
    moreover have "TrimLeft s = TrimLeft (drop (leading_space s) s)"
      using False by (subst TrimLeft.simps) simp
    ultimately show ?thesis by (metis suffix_order.order_trans)
  qed
qed

lemma TrimSpace_sublist: "sublist (TrimSpace s) s"
  unfolding TrimSpace_def
  using TrimRight_prefix [of "TrimLeft s"] TrimLeft_suffix [of s]
  by (meson prefix_imp_sublist suffix_imp_sublist sublist_order.order_trans)


lemma ReplaceAll_mark_crlf: "ReplaceAll s [CHR 0x0D, CHR 0x0A] ''##CRLF##'' = mark_crlf s"
  by (induction s rule: mark_crlf.induct) (simp_all add: ReplaceAll_Nil ReplaceAll_Cons)


section \<open>Properties of remote execution\<close>

lemma windows_outputStr_steps:
  "windows_outputStr s
   = TrimSpace (ReplaceAll (cr_to_lf (mark_crlf (strip_nul s))) ''##CRLF##'' [CHR 0x0A])"
  by (simp add: windows_outputStr_def strip_nul_def cr_to_lf_def ReplaceAll_delete_byte
        ReplaceAll_mark_crlf ReplaceAll_map_byte)



lemma HandleExecute_after_lookup:
  assumes "get_string arguments ''sessionID'' = Some sessionID"
    and "get_string arguments ''command'' = Some command"
    and "GetSession c sessionID w = (Inr session, w0)"
  shows "HandleExecute c arguments w =
           (case Execute c sessionID command w0 of
              ((Inl err, sent), w1) \<Rightarrow> ((Inl (Err err), sent), w1)
            | ((Inr execute, sent), w1) \<Rightarrow>
                ((Inr (responseText (OS session \<noteq> '''' \<and> ToLower (OS session) = ''windows'')
                         execute), sent), w1))"
  using assms by (simp add: HandleExecute_def Let_def)

lemma ToLower_windows_nonempty: "ToLower s = ''windows'' \<Longrightarrow> s \<noteq> ''''"
  by (auto simp: ToLower_def)

lemma responseText_output:
  assumes "ResponseErr execute = None \<or> ResponseErr execute = Some ''''"
    and "output = (if Stdout execute = [] then Stderr execute else Stdout execute)"
    and "output \<noteq> []"
  shows "responseText isWindows execute
         = (if isWindows then ''Output from Windows command:'' @ [CHR 0x0A] @ windows_outputStr output
            else ''Output:'' @ [CHR 0x0A] @ output)"
  using assms by (auto simp: responseText_def outputText_def Let_def)


text \<open>
  Claim C2. For a session classified as Windows, a successful execution and a non-empty
  captured output (standard output, or standard error when that is empty), the answer
  is the heading followed by the normalised output: NUL bytes dropped, then CR LF pairs
  marked, then every remaining CR turned into LF, then the marks replaced by LF, then
  leading and trailing white space trimmed, so that the text neither starts nor ends with
  a white-space character. The output \<open>line1 CR LF NUL line2 CR\<close> becomes
  \<open>line1 LF line2\<close>.
\<close>

theorem windows_output_normalized:
  assumes "get_string arguments ''sessionID'' = Some sessionID"
    and "get_string arguments ''command'' = Some command"
    and "GetSession c sessionID w = (Inr session, w0)"
    and "ToLower (OS session) = ''windows''"
    and "Execute c sessionID command w0 = ((Inr execute, sent), w1)"
    and "ResponseErr execute = None \<or> ResponseErr execute = Some ''''"
    and "out = (if Stdout execute = [] then Stderr execute else Stdout execute)"
    and "out \<noteq> []"
  shows "HandleExecute c arguments w
         = ((Inr (''Output from Windows command:'' @ [CHR 0x0A]
                   @ TrimSpace (ReplaceAll (cr_to_lf (mark_crlf (strip_nul out)))
                                  ''##CRLF##'' [CHR 0x0A])), sent), w1)
       \<and> leading_space (windows_outputStr out) = 0
       \<and> trailing_space (windows_outputStr out) = 0
       \<and> windows_outputStr (''line1'' @ [CHR 0x0D, CHR 0x0A, CHR 0x00] @ ''line2'' @ [CHR 0x0D])
           = ''line1'' @ [CHR 0x0A] @ ''line2''"
proof (intro conjI)
  show "leading_space (windows_outputStr out) = 0" "trailing_space (windows_outputStr out) = 0"
    unfolding windows_outputStr_def using TrimSpace_trimmed by blast+
  have w: "OS session \<noteq> '''' \<and> ToLower (OS session) = ''windows''"
    using assms(4) ToLower_windows_nonempty by blast
  show "HandleExecute c arguments w
         = ((Inr (''Output from Windows command:'' @ [CHR 0x0A]
                   @ TrimSpace (ReplaceAll (cr_to_lf (mark_crlf (strip_nul out)))
                                  ''##CRLF##'' [CHR 0x0A])), sent), w1)"
    using HandleExecute_after_lookup [OF assms(1,2,3)] assms(5) w
      responseText_output [OF assms(6,7,8), of True] windows_outputStr_steps [of out]
    by simp
  show "windows_outputStr (''line1'' @ [CHR 0x0D, CHR 0x0A, CHR 0x00] @ ''line2'' @ [CHR 0x0D])
           = ''line1'' @ [CHR 0x0A] @ ''line2''"
    by code_simp
qed




theorem windows_output_normalized_witness:
  "GetSession \<lparr>GetSessions = (\<lambda>w. (Inr [\<lparr>ID = ''w1'', OS = ''Windows''\<rparr>], w)),
               ExecuteRPC = (\<lambda>req w. (Inr \<lparr>ResponseErr = None,
                   Stdout = ''line1'' @ [CHR 0x0D, CHR 0x0A, CHR 0x00] @ ''line2'' @ [CHR 0x0D],
                   Stderr = []\<rparr>, Suc w))\<rparr> ''w1'' (0::nat)
     = (Inr \<lparr>ID = ''w1'', OS = ''Windows''\<rparr>, 0)
   \<and> ToLower (OS \<lparr>ID = ''w1'', OS = ''Windows''\<rparr>) = ''windows''
   \<and> HandleExecute \<lparr>GetSessions = (\<lambda>w. (Inr [\<lparr>ID = ''w1'', OS = ''Windows''\<rparr>], w)),
               ExecuteRPC = (\<lambda>req w. (Inr \<lparr>ResponseErr = None,
                   Stdout = ''line1'' @ [CHR 0x0D, CHR 0x0A, CHR 0x00] @ ''line2'' @ [CHR 0x0D],
                   Stderr = []\<rparr>, Suc w))\<rparr>
        [(''sessionID'', JString ''w1''), (''command'', JString ''type f.txt'')] (0::nat)
     = ((Inr (''Output from Windows command:'' @ [CHR 0x0A] @ ''line1'' @ [CHR 0x0A] @ ''line2''),
         [cmd_request ''w1'' ''type f.txt'']), 1)"
proof -
  let ?out = "''line1'' @ [CHR 0x0D, CHR 0x0A, CHR 0x00] @ ''line2'' @ [CHR 0x0D]"
  let ?ex = "\<lparr>ResponseErr = None, Stdout = ?out, Stderr = []\<rparr>"
  let ?c = "\<lparr>GetSessions = (\<lambda>w::nat. (Inr [\<lparr>ID = ''w1'', OS = ''Windows''\<rparr>], w)),
             ExecuteRPC = (\<lambda>req w. (Inr ?ex, Suc w))\<rparr>"
  let ?args = "[(''sessionID'', JString ''w1''), (''command'', JString ''type f.txt'')]"
  have g1: "get_string ?args ''sessionID'' = Some ''w1''"
    and g2: "get_string ?args ''command'' = Some ''type f.txt''"
    by (simp_all add: get_string_def)
  have h1: "GetSession ?c ''w1'' 0 = (Inr \<lparr>ID = ''w1'', OS = ''Windows''\<rparr>, 0)"
    by (simp add: GetSession_def)
  have h2: "ToLower (OS \<lparr>ID = ''w1'', OS = ''Windows''\<rparr>) = ''windows''"
    by (simp add: string_defs)
  have h3: "Execute ?c ''w1'' ''type f.txt'' 0 = ((Inr ?ex, [cmd_request ''w1'' ''type f.txt'']), 1)"
    using h1 h2 by (simp add: Execute_def attempt_twice_def)
  have h4: "ResponseErr ?ex = None \<or> ResponseErr ?ex = Some ''''" by simp
  have h5: "?out = (if Stdout ?ex = [] then Stderr ?ex else Stdout ?ex)" by simp
  have h6: "?out \<noteq> []" by simp
  note t = windows_output_normalized [OF g1 g2 h1 h2 h3 h4 h5 h6]
  have n: "TrimSpace (ReplaceAll (cr_to_lf (mark_crlf (strip_nul ?out))) ''##CRLF##'' [CHR 0x0A])
           = ''line1'' @ [CHR 0x0A] @ ''line2''"
    by code_simp
  have r: "HandleExecute ?c ?args 0
           = ((Inr (''Output from Windows command:'' @ [CHR 0x0A] @ ''line1'' @ [CHR 0x0A] @ ''line2''),
               [cmd_request ''w1'' ''type f.txt'']), 1)"
    using t n by (simp only:)
  show ?thesis using h1 h2 r by (simp only: simp_thms)
qed




end
